theory Spec2Isabelle
  imports Main
begin

section \<open>Errors\<close>

text \<open>
  Two kinds of values are thrown in \<^verbatim>\<open>aws-secrets-manager.service.ts\<close>: the NestJS
  exceptions the service constructs itself, and the error objects thrown by its
  collaborators (the vault client, the local store, the provisioning subprocess).
  A collaborator's error object is read by the service through the properties
  \<^verbatim>\<open>name\<close>, \<^verbatim>\<open>code\<close>, \<^verbatim>\<open>message\<close>, \<^verbatim>\<open>stdout\<close> and \<^verbatim>\<open>stderr\<close>.
\<close>

datatype ext_error = ExtError
  (ext_name: string) (ext_code: "string option") (ext_message: string)
  (ext_stdout: "string option") (ext_stderr: "string option")

datatype error =
    NotFoundException string
  | BadRequestException string
  | ConflictException string
  | InternalServerErrorException string
  | Thrown ext_error

fun err_name :: "error \<Rightarrow> string" where
  "err_name (NotFoundException m) = ''NotFoundException''"
| "err_name (BadRequestException m) = ''BadRequestException''"
| "err_name (ConflictException m) = ''ConflictException''"
| "err_name (InternalServerErrorException m) = ''InternalServerErrorException''"
| "err_name (Thrown x) = ext_name x"

fun err_code :: "error \<Rightarrow> string option" where
  "err_code (Thrown x) = ext_code x"
| "err_code e = None"

fun err_message :: "error \<Rightarrow> string" where
  "err_message (NotFoundException m) = m"
| "err_message (BadRequestException m) = m"
| "err_message (ConflictException m) = m"
| "err_message (InternalServerErrorException m) = m"
| "err_message (Thrown x) = ext_message x"

fun err_stdout :: "error \<Rightarrow> string option" where
  "err_stdout (Thrown x) = ext_stdout x"
| "err_stdout e = None"

fun err_stderr :: "error \<Rightarrow> string option" where
  "err_stderr (Thrown x) = ext_stderr x"
| "err_stderr e = None"

section \<open>JavaScript helpers\<close>

text \<open>A nullable string is falsy when it is null, undefined or empty.\<close>

definition truthy :: "string option \<Rightarrow> bool" where
  "truthy v = (case v of None \<Rightarrow> False | Some s \<Rightarrow> s \<noteq> [])"

text \<open>\<^verbatim>\<open>x?.toString() || ''\<close>\<close>

definition or_empty :: "string option \<Rightarrow> string" where
  "or_empty v = (case v of None \<Rightarrow> [] | Some s \<Rightarrow> s)"

text \<open>\<^verbatim>\<open>s.includes(sub)\<close>\<close>

fun str_includes :: "string \<Rightarrow> string \<Rightarrow> bool" where
  "str_includes [] sub = (sub = [])"
| "str_includes (c # cs) sub =
     (if take (length sub) (c # cs) = sub then True else str_includes cs sub)"

text \<open>\<^verbatim>\<open>s.slice(-n)\<close>: the last \<open>n\<close> characters.\<close>

definition slice_last :: "nat \<Rightarrow> string \<Rightarrow> string" where
  "slice_last n s = drop (length s - n) s"

section \<open>Data model\<close>

text \<open>
  Modelled from the spec: the enum \<^verbatim>\<open>SecretType\<close> is imported from the generated
  Prisma client, which is not part of the sources; its members are the four the
  data model of the specification and the README list.
\<close>

datatype SecretType = RDS_CREDENTIALS | DOCUMENTDB_CREDENTIALS | AWS_API_KEY | GENERIC_SECRET

fun show_type :: "SecretType \<Rightarrow> string" where
  "show_type RDS_CREDENTIALS = ''RDS_CREDENTIALS''"
| "show_type DOCUMENTDB_CREDENTIALS = ''DOCUMENTDB_CREDENTIALS''"
| "show_type AWS_API_KEY = ''AWS_API_KEY''"
| "show_type GENERIC_SECRET = ''GENERIC_SECRET''"

text \<open>The row of the local store that \<^verbatim>\<open>prisma.secret.create\<close> writes in \<^verbatim>\<open>createSecret\<close>.\<close>

record secret =
  s_id :: string
  s_projectId :: string
  s_name :: string
  s_type :: SecretType
  s_awsSecretArn :: "string option"
  s_awsRegion :: string
  s_enableRotation :: bool
  s_rotationLambdaArn :: "string option"
  s_rotationRules :: "int option"
  s_description :: "string option"
  s_lastRotatedAt :: "nat option"
  s_createdAt :: nat
  s_updatedAt :: nat

text \<open>The columns of a project that the service reads or writes.\<close>

record project =
  p_id :: string
  p_name :: string
  awsSecretsManagerAccessKeyId :: "string option"
  awsSecretsManagerSecretAccessKey :: "string option"
  awsSecretsManagerRegion :: "string option"
  awsSecretsManagerRotationLambdaArn :: "string option"
  awsSecretsManagerDeploymentStatus :: "string option"
  awsSecretsManagerDeploymentMessage :: "string option"

section \<open>Effects\<close>

text \<open>
  The commands sent to the vault client. A secret value is carried as the text
  \<^verbatim>\<open>JSON.stringify\<close> gives for it; the rotation rules as their
  \<^verbatim>\<open>AutomaticallyAfterDays\<close>.
\<close>

datatype command =
    DescribeSecretCommand (SecretId: string)
  | CreateSecretCommand (Name: string) (Description: "string option") (SecretString: string)
  | RotateSecretCommand (SecretId: string) (RotationLambdaARN: "string option")
      (RotationRules: "int option")
  | DeleteSecretCommand (SecretId: string) (ForceDeleteWithoutRecovery: bool)
      (RecoveryWindowInDays: "nat option")
  | UpdateSecretCommand (SecretId: string) (SecretString: string) (Description: "string option")
  | UpdateSecretVersionStageCommand (SecretId: string) (VersionStage: string)
      (MoveToVersionId: string) (RemoveFromVersionId: "string option")

datatype iam_command =
    UpdateAccessKeyCommand (UserName: string) (AccessKeyId: string) (Status: string)
  | DeleteAccessKeyCommand (UserName: string) (AccessKeyId: string)

text \<open>The writes issued to the local store.\<close>

datatype db_op =
    SecretCreate string
  | SecretUpdate string
  | SecretDelete string
  | ProjectUpdateArn string "string option"
  | ProjectUpdateStatus string string "string option"

text \<open>
  Every call that leaves the process is recorded, in order: vault commands,
  identity-provider commands, writes to the local store and subprocess runs.
\<close>

datatype event = Send command | Iam iam_command | Db db_op | Exec string

record world =
  secrets :: "secret list"
  projects :: "project list"
  activeDeployments :: "string set"
  trace :: "event list"

text \<open>
  The collaborators are parameters. Each answers a call from the calls made so far
  and the call itself, so that the same command may succeed once and fail later.
  \<^item> \<open>vault\<close>: the reply of \<^verbatim>\<open>client.send\<close> (the ARN field of the response) or the error thrown;
  \<^item> \<open>iam\<close>: whether \<^verbatim>\<open>iamClient.send\<close> throws;
  \<^item> \<open>db_fault\<close>: whether the local store refuses a write for a reason of its own;
  \<^item> \<open>exec\<close>: \<^verbatim>\<open>execAsync\<close>, giving stdout and stderr or the error thrown;
  \<^item> \<open>gen_id\<close>, \<open>now\<close>: the id the store generates and the clock;
  \<^item> \<open>match_arn\<close>: the two regular-expression matches on the tool's output in
    \<^verbatim>\<open>_deployRotationLambdaInternal\<close>, the first that matches, trimmed;
  \<^item> \<open>json_parse\<close>: \<^verbatim>\<open>JSON.parse\<close> of a credential document, giving its
    \<^verbatim>\<open>accessKeyId\<close> and \<^verbatim>\<open>username\<close> members where truthy, or the error it throws.
\<close>

record env =
  vault :: "event list \<Rightarrow> command \<Rightarrow> ext_error + string option"
  iam :: "event list \<Rightarrow> iam_command \<Rightarrow> ext_error option"
  db_fault :: "event list \<Rightarrow> db_op \<Rightarrow> ext_error option"
  exec :: "event list \<Rightarrow> string \<Rightarrow> ext_error + string \<times> string"
  gen_id :: string
  now :: nat
  match_arn :: "string \<Rightarrow> string option"
  json_parse :: "string \<Rightarrow> ext_error + string option \<times> string option"

definition log_event :: "event \<Rightarrow> world \<Rightarrow> world" where
  "log_event ev w = w\<lparr>trace := trace w @ [ev]\<rparr>"

text \<open>\<^verbatim>\<open>await client.send(command)\<close>\<close>

definition send :: "env \<Rightarrow> command \<Rightarrow> world \<Rightarrow> (ext_error + string option) \<times> world" where
  "send e c w = (vault e (trace w) c, log_event (Send c) w)"

text \<open>\<^verbatim>\<open>await execAsync(command, options)\<close>\<close>

definition execAsync :: "env \<Rightarrow> string \<Rightarrow> world \<Rightarrow> (ext_error + string \<times> string) \<times> world" where
  "execAsync e c w = (exec e (trace w) c, log_event (Exec c) w)"

section \<open>The local store\<close>

text \<open>
  Modelled from the spec: the persistence engine is a collaborator outside the
  sources, which gives simple CRUD and a unique key on the name of a secret.
  Reads are lookups. A write is refused either by the store for a reason of its
  own (\<open>db_fault\<close>), by the unique key (Prisma code P2002) or because the row is
  missing (Prisma code P2025).
\<close>

definition secret_by_id :: "world \<Rightarrow> string \<Rightarrow> secret option" where
  "secret_by_id w i = find (\<lambda>s. s_id s = i) (secrets w)"

definition secret_by_name :: "world \<Rightarrow> string \<Rightarrow> secret option" where
  "secret_by_name w n = find (\<lambda>s. s_name s = n) (secrets w)"

definition project_by_id :: "world \<Rightarrow> string \<Rightarrow> project option" where
  "project_by_id w i = find (\<lambda>p. p_id p = i) (projects w)"

definition prisma_error :: "string \<Rightarrow> string \<Rightarrow> ext_error" where
  "prisma_error c m = ExtError ''PrismaClientKnownRequestError'' (Some c) m None None"

definition prisma_secret_create :: "env \<Rightarrow> secret \<Rightarrow> world \<Rightarrow> (ext_error + secret) \<times> world" where
  "prisma_secret_create e row w =
     (let w1 = log_event (Db (SecretCreate (s_name row))) w in
      case db_fault e (trace w) (SecretCreate (s_name row)) of
        Some x \<Rightarrow> (Inl x, w1)
      | None \<Rightarrow>
          (case secret_by_name w (s_name row) of
             Some other \<Rightarrow> (Inl (prisma_error ''P2002'' ''Unique constraint failed''), w1)
           | None \<Rightarrow> (Inr row, w1\<lparr>secrets := secrets w @ [row]\<rparr>)))"

definition prisma_secret_update ::
  "env \<Rightarrow> string \<Rightarrow> (secret \<Rightarrow> secret) \<Rightarrow> world \<Rightarrow> (ext_error + secret) \<times> world" where
  "prisma_secret_update e i f w =
     (let w1 = log_event (Db (SecretUpdate i)) w in
      case db_fault e (trace w) (SecretUpdate i) of
        Some x \<Rightarrow> (Inl x, w1)
      | None \<Rightarrow>
          (case secret_by_id w i of
             None \<Rightarrow> (Inl (prisma_error ''P2025'' ''Record to update not found''), w1)
           | Some s \<Rightarrow>
               (Inr (f s), w1\<lparr>secrets := map (\<lambda>r. if s_id r = i then f r else r) (secrets w)\<rparr>)))"

definition prisma_secret_delete :: "env \<Rightarrow> string \<Rightarrow> world \<Rightarrow> (ext_error + secret) \<times> world" where
  "prisma_secret_delete e i w =
     (let w1 = log_event (Db (SecretDelete i)) w in
      case db_fault e (trace w) (SecretDelete i) of
        Some x \<Rightarrow> (Inl x, w1)
      | None \<Rightarrow>
          (case secret_by_id w i of
             None \<Rightarrow> (Inl (prisma_error ''P2025'' ''Record to delete does not exist''), w1)
           | Some s \<Rightarrow> (Inr s, w1\<lparr>secrets := filter (\<lambda>r. s_id r \<noteq> i) (secrets w)\<rparr>)))"

definition prisma_project_update ::
  "env \<Rightarrow> db_op \<Rightarrow> string \<Rightarrow> (project \<Rightarrow> project) \<Rightarrow> world \<Rightarrow> ext_error option \<times> world" where
  "prisma_project_update e op i f w =
     (let w1 = log_event (Db op) w in
      case db_fault e (trace w) op of
        Some x \<Rightarrow> (Some x, w1)
      | None \<Rightarrow>
          (case project_by_id w i of
             None \<Rightarrow> (Some (prisma_error ''P2025'' ''Record to update not found''), w1)
           | Some p \<Rightarrow>
               (None, w1\<lparr>projects := map (\<lambda>r. if p_id r = i then f r else r) (projects w)\<rparr>)))"

section \<open>Helper methods of the service\<close>

text \<open>
  \<^verbatim>\<open>getProjectAwsConfig\<close> reads the project and throws when it is missing or when
  one of its three credential columns is falsy. \<^verbatim>\<open>getClient\<close> only constructs a
  client object from the configuration and makes no call, so it has no definition
  here: the commands sent through the client are what the record of calls keeps.
\<close>

record aws_config =
  accessKeyId :: string
  secretAccessKey :: string
  region :: string
  rotationLambdaArn :: "string option"

definition getProjectAwsConfig :: "world \<Rightarrow> string \<Rightarrow> error + aws_config" where
  "getProjectAwsConfig w projectId =
     (case project_by_id w projectId of
        None \<Rightarrow> Inl (NotFoundException (''Project not found: '' @ projectId))
      | Some project \<Rightarrow>
          if \<not> truthy (awsSecretsManagerAccessKeyId project)
             \<or> \<not> truthy (awsSecretsManagerSecretAccessKey project)
             \<or> \<not> truthy (awsSecretsManagerRegion project)
          then Inl (BadRequestException
                 (''Project '' @ p_name project @ '' does not have AWS Secrets Manager configured''))
          else Inr \<lparr>accessKeyId = or_empty (awsSecretsManagerAccessKeyId project),
                    secretAccessKey = or_empty (awsSecretsManagerSecretAccessKey project),
                    region = or_empty (awsSecretsManagerRegion project),
                    rotationLambdaArn = awsSecretsManagerRotationLambdaArn project\<rparr>)"

fun isRotationSupported :: "SecretType \<Rightarrow> bool" where
  "isRotationSupported t =
     (t \<in> set [RDS_CREDENTIALS, DOCUMENTDB_CREDENTIALS, AWS_API_KEY, GENERIC_SECRET])"

text \<open>The private method \<^verbatim>\<open>enableRotation\<close>.\<close>

definition enableRotation ::
  "env \<Rightarrow> string \<Rightarrow> string option \<Rightarrow> int \<Rightarrow> world \<Rightarrow> (ext_error + string option) \<times> world" where
  "enableRotation e secretId lambdaArn rotationRules w =
     send e (RotateSecretCommand secretId lambdaArn (Some rotationRules)) w"

section \<open>createSecret\<close>

record create_params =
  c_projectId :: string
  c_name :: string
  c_type :: SecretType
  c_secretValue :: string
  c_description :: "string option"
  c_enableRotation :: bool
  c_rotationRules :: "int option"
  c_awsRegion :: "string option"

text \<open>
  The optional flag \<^verbatim>\<open>enableRotation\<close> is a \<open>bool\<close>: the method only tests it
  for truth and stores \<^verbatim>\<open>enableRotation || false\<close>, so an absent flag is \<open>False\<close>.
  Calls of the logger are left out; they return nothing and decide nothing.
\<close>

text \<open>Lines 61 to 68, "Validate rotation prerequisites".\<close>

definition rotation_prerequisites :: "bool \<Rightarrow> SecretType \<Rightarrow> string option \<Rightarrow> error option" where
  "rotation_prerequisites enableRot ty lambdaArn =
     (if enableRot then
        if \<not> isRotationSupported ty then
          Some (BadRequestException
            (''Secret type '' @ show_type ty @ '' does not support automatic rotation''))
        else if \<not> truthy lambdaArn then
          Some (BadRequestException
            ''Lambda ARN is not configured in Project Settings, cannot enable rotation'')
        else None
      else None)"

text \<open>
  Lines 77 to 90, the existence probe: a reply means the secret exists upstream
  and a ConflictException is thrown inside the \<^verbatim>\<open>try\<close>; the handler rethrows
  everything whose name is not ResourceNotFoundException.
\<close>

definition describe_probe :: "env \<Rightarrow> string \<Rightarrow> world \<Rightarrow> error option \<times> world" where
  "describe_probe e name w =
     (case send e (DescribeSecretCommand name) w of (r, w1) \<Rightarrow>
        (let error = (case r of
                 Inr reply \<Rightarrow> ConflictException
                   (''AWS Secrets Manager already contains a secret named '' @ [CHR 0x22] @ name
                      @ [CHR 0x22])
               | Inl x \<Rightarrow> Thrown x)
         in if err_name error \<noteq> ''ResourceNotFoundException'' then (Some error, w1)
            else (None, w1)))"

definition force_delete :: "string \<Rightarrow> command" where
  "force_delete name = DeleteSecretCommand name True None"

text \<open>
  Lines 110 to 130: enabling rotation, and the handler that deletes the created
  secret. The delete in the handler is awaited outside any \<^verbatim>\<open>try\<close>: when it
  throws, its error leaves the handler in place of the BadRequestException.
\<close>

definition enable_rotation_step ::
  "env \<Rightarrow> string \<Rightarrow> string option \<Rightarrow> int option \<Rightarrow> world \<Rightarrow> error option \<times> world" where
  "enable_rotation_step e name lambdaArn rotationRules w =
     (case enableRotation e name lambdaArn
             (case rotationRules of None \<Rightarrow> 30 | Some d \<Rightarrow> d) w of
        (Inr reply, w1) \<Rightarrow> (None, w1)
      | (Inl rotationError, w1) \<Rightarrow>
          (case send e (force_delete name) w1 of
             (Inl x, w2) \<Rightarrow> (Some (Thrown x), w2)
           | (Inr reply, w2) \<Rightarrow>
               (Some (BadRequestException
                  (''Failed to enable rotation: '' @ ext_message rotationError)), w2)))"

text \<open>
  Lines 95 to 148, the body of the outer \<^verbatim>\<open>try\<close>. The flag returned beside the
  result is \<^verbatim>\<open>awsSecretCreated\<close> as it stands when the block is left.
\<close>

definition create_try ::
  "env \<Rightarrow> create_params \<Rightarrow> aws_config \<Rightarrow> string option \<Rightarrow> world
     \<Rightarrow> ((error + secret) \<times> bool) \<times> world" where
  "create_try e params projectConfig lambdaArn w =
     (case send e (CreateSecretCommand (c_name params) (c_description params)
                     (c_secretValue params)) w of
        (Inl x, w1) \<Rightarrow> ((Inl (Thrown x), False), w1)
      | (Inr awsSecretArn, w1) \<Rightarrow>
          (case (if c_enableRotation params
                 then enable_rotation_step e (c_name params) lambdaArn (c_rotationRules params) w1
                 else (None, w1)) of
             (Some err, w2) \<Rightarrow> ((Inl err, True), w2)
           | (None, w2) \<Rightarrow>
               (case prisma_secret_create e
                       \<lparr>s_id = gen_id e,
                        s_projectId = c_projectId params,
                        s_name = c_name params,
                        s_type = c_type params,
                        s_awsSecretArn = awsSecretArn,
                        s_awsRegion = (if truthy (c_awsRegion params)
                                       then or_empty (c_awsRegion params)
                                       else region projectConfig),
                        s_enableRotation = c_enableRotation params,
                        s_rotationLambdaArn = (if c_enableRotation params then lambdaArn else None),
                        s_rotationRules = c_rotationRules params,
                        s_description = c_description params,
                        s_lastRotatedAt = None,
                        s_createdAt = now e,
                        s_updatedAt = now e\<rparr> w2 of
                  (Inl x, w3) \<Rightarrow> ((Inl (Thrown x), True), w3)
                | (Inr dbRecord, w3) \<Rightarrow> ((Inr dbRecord, True), w3))))"

text \<open>
  Lines 149 to 167, the outer handler: the rollback delete is inside its own
  \<^verbatim>\<open>try\<close>, whose handler only logs, and the error caught is rethrown.
\<close>

definition create_catch ::
  "env \<Rightarrow> string \<Rightarrow> bool \<Rightarrow> error \<Rightarrow> world \<Rightarrow> (error + secret) \<times> world" where
  "create_catch e name awsSecretCreated error w =
     (if awsSecretCreated \<and> err_code error \<noteq> Some ''P2002''
      then (case send e (force_delete name) w of (r, w1) \<Rightarrow> (Inl error, w1))
      else (Inl error, w))"

definition createSecret :: "env \<Rightarrow> create_params \<Rightarrow> world \<Rightarrow> (error + secret) \<times> world" where
  "createSecret e params w =
     (case getProjectAwsConfig w (c_projectId params) of
        Inl err \<Rightarrow> (Inl err, w)
      | Inr projectConfig \<Rightarrow>
          (let lambdaArn = (if c_enableRotation params then rotationLambdaArn projectConfig
                            else None)
           in case rotation_prerequisites (c_enableRotation params) (c_type params) lambdaArn of
                Some err \<Rightarrow> (Inl err, w)
              | None \<Rightarrow>
                  (case secret_by_name w (c_name params) of
                     Some existing \<Rightarrow>
                       (Inl (ConflictException
                          (''Secret name '' @ [CHR 0x22] @ c_name params @ [CHR 0x22]
                             @ '' already exists'')), w)
                   | None \<Rightarrow>
                       (case describe_probe e (c_name params) w of
                          (Some err, w1) \<Rightarrow> (Inl err, w1)
                        | (None, w1) \<Rightarrow>
                            (case create_try e params projectConfig lambdaArn w1 of
                               ((Inr dbRecord, created), w2) \<Rightarrow> (Inr dbRecord, w2)
                             | ((Inl error, created), w2) \<Rightarrow>
                                 create_catch e (c_name params) created error w2)))))"

section \<open>updateSecret and deleteSecret\<close>

text \<open>
  \<^verbatim>\<open>updateSecret(secretId, {secretValue, description})\<close>. An absent description
  leaves the column as it is (Prisma skips an undefined field).
\<close>

definition updateSecret ::
  "env \<Rightarrow> string \<Rightarrow> string option \<Rightarrow> string option \<Rightarrow> world \<Rightarrow> (error + secret) \<times> world" where
  "updateSecret e secretId secretValue description w =
     (case secret_by_id w secretId of
        None \<Rightarrow> (Inl (NotFoundException (''Secret not found: '' @ secretId)), w)
      | Some secret \<Rightarrow>
          (case getProjectAwsConfig w (s_projectId secret) of
             Inl err \<Rightarrow> (Inl err, w)
           | Inr projectConfig \<Rightarrow>
               (case (case secretValue of
                        None \<Rightarrow> (None, w)
                      | Some v \<Rightarrow>
                          (case send e (UpdateSecretCommand (s_name secret) v description) w of
                             (Inl x, w1) \<Rightarrow> (Some x, w1)
                           | (Inr reply, w1) \<Rightarrow> (None, w1))) of
                  (Some x, w1) \<Rightarrow>
                    (Inl (BadRequestException
                       (''Failed to update AWS Secret: '' @ ext_message x)), w1)
                | (None, w1) \<Rightarrow>
                    (case prisma_secret_update e secretId
                            (\<lambda>r. r\<lparr>s_description :=
                                      (case description of None \<Rightarrow> s_description r
                                       | Some d \<Rightarrow> Some d),
                                    s_updatedAt := now e\<rparr>) w1 of
                       (Inl x, w2) \<Rightarrow> (Inl (Thrown x), w2)
                     | (Inr r, w2) \<Rightarrow> (Inr r, w2)))))"

text \<open>
  \<^verbatim>\<open>deleteSecret(secretId, forceDelete)\<close>. The client is null when the project
  configuration cannot be read; both branches of the handler around the remote
  delete only log.
\<close>

definition deleteSecret :: "env \<Rightarrow> string \<Rightarrow> bool \<Rightarrow> world \<Rightarrow> (error + secret) \<times> world" where
  "deleteSecret e secretId forceDelete w =
     (case secret_by_id w secretId of
        None \<Rightarrow> (Inl (NotFoundException (''Secret not found: '' @ secretId)), w)
      | Some secret \<Rightarrow>
          (let client = (case getProjectAwsConfig w (s_projectId secret) of
                           Inl err \<Rightarrow> False | Inr projectConfig \<Rightarrow> True);
               w1 = (if client
                     then (case send e (DeleteSecretCommand (s_name secret) forceDelete
                                          (if forceDelete then None else Some 30)) w of
                             (Inr reply, w') \<Rightarrow> w'
                           | (Inl x, w') \<Rightarrow>
                               (if ext_name x = ''ResourceNotFoundException'' then w' else w'))
                     else w)
           in case prisma_secret_delete e secretId w1 of
                (Inl x, w2) \<Rightarrow> (Inl (Thrown x), w2)
              | (Inr r, w2) \<Rightarrow> (Inr r, w2)))"

section \<open>Deployment of the rotation function\<close>

text \<open>
  \<^verbatim>\<open>updateDeploymentStatus\<close>: the write is inside a \<^verbatim>\<open>try\<close> whose handler only
  logs, so the method never throws and a refused write leaves the row as it was.
\<close>

definition updateDeploymentStatus ::
  "env \<Rightarrow> string \<Rightarrow> string \<Rightarrow> string option \<Rightarrow> world \<Rightarrow> world" where
  "updateDeploymentStatus e projectId status message w =
     (let m = (if truthy message then message else None) in
      case prisma_project_update e (ProjectUpdateStatus projectId status m) projectId
             (\<lambda>p. p\<lparr>awsSecretsManagerDeploymentStatus := Some status,
                     awsSecretsManagerDeploymentMessage := m\<rparr>) w of
        (r, w1) \<Rightarrow> w1)"

text \<open>
  Lines 463 to 485 and 583 to 596: run the provisioning command; when it fails and
  the stdout of the failure holds both sentinels, run the unlock command and then
  the provisioning command once more.
\<close>

definition exec_with_lock_recovery ::
  "env \<Rightarrow> string \<Rightarrow> string \<Rightarrow> world \<Rightarrow> (ext_error + string \<times> string) \<times> world" where
  "exec_with_lock_recovery e command unlockCommand w =
     (case execAsync e command w of
        (Inr result, w1) \<Rightarrow> (Inr result, w1)
      | (Inl execError, w1) \<Rightarrow>
          (let errorOutput = or_empty (ext_stdout execError) in
           if str_includes errorOutput ''Locked'' \<and> str_includes errorOutput ''sst unlock''
           then (case execAsync e unlockCommand w1 of
                   (Inl x, w2) \<Rightarrow> (Inl x, w2)
                 | (Inr unlocked, w2) \<Rightarrow> execAsync e command w2)
           else (Inl execError, w1)))"

definition deployCommand :: "string \<Rightarrow> string" where
  "deployCommand projectId = ''npm install && npx sst deploy --stage '' @ projectId"

definition removeCommand :: "string \<Rightarrow> string" where
  "removeCommand projectId = ''npx sst remove --stage '' @ projectId"

definition unlockCommand :: "string \<Rightarrow> string" where
  "unlockCommand projectId = ''npx sst unlock --stage '' @ projectId"

text \<open>Lines 442 to 520, the body of the \<^verbatim>\<open>try\<close> of \<^verbatim>\<open>_deployRotationLambdaInternal\<close>.\<close>

definition deploy_try :: "env \<Rightarrow> string \<Rightarrow> world \<Rightarrow> (error + string) \<times> world" where
  "deploy_try e projectId w =
     (case exec_with_lock_recovery e (deployCommand projectId) (unlockCommand projectId) w of
        (Inl x, w1) \<Rightarrow> (Inl (Thrown x), w1)
      | (Inr (stdout, stderr), w1) \<Rightarrow>
          (let lambdaArn = match_arn e stdout in
           if \<not> truthy lambdaArn
           then (Inl (InternalServerErrorException
                   ''Deployment completed but Lambda ARN could not be parsed from output.''), w1)
           else (case prisma_project_update e (ProjectUpdateArn projectId lambdaArn) projectId
                        (\<lambda>p. p\<lparr>awsSecretsManagerRotationLambdaArn := lambdaArn\<rparr>) w1 of
                   (Some x, w2) \<Rightarrow> (Inl (Thrown x), w2)
                 | (None, w2) \<Rightarrow> (Inr (or_empty lambdaArn), w2))))"

definition deploy_failure :: "error \<Rightarrow> error" where
  "deploy_failure error =
     InternalServerErrorException
       (''Deployment failed. Message: '' @ err_message error @ ''. '' @ [CHR 0x0A]
          @ ''Stderr: '' @ slice_last 1000 (or_empty (err_stderr error)) @ '' '' @ [CHR 0x0A]
          @ ''Stdout: '' @ slice_last 1000 (or_empty (err_stdout error)))"

definition deployRotationLambdaInternal ::
  "env \<Rightarrow> string \<Rightarrow> world \<Rightarrow> (error + string) \<times> world" where
  "deployRotationLambdaInternal e projectId w =
     (case project_by_id w projectId of
        None \<Rightarrow> (Inl (NotFoundException (''Project not found: '' @ projectId)), w)
      | Some project \<Rightarrow>
          if \<not> truthy (awsSecretsManagerAccessKeyId project)
             \<or> \<not> truthy (awsSecretsManagerSecretAccessKey project)
             \<or> \<not> truthy (awsSecretsManagerRegion project)
          then (Inl (BadRequestException
                  (''Project '' @ p_name project
                     @ '' does not have AWS Secrets Manager configured'')), w)
          else (case deploy_try e projectId w of
                  (Inr lambdaArn, w1) \<Rightarrow> (Inr lambdaArn, w1)
                | (Inl error, w1) \<Rightarrow> (Inl (deploy_failure error), w1)))"

text \<open>Lines 570 to 607, the body of the \<^verbatim>\<open>try\<close> of \<^verbatim>\<open>_removeRotationLambdaInternal\<close>.\<close>

definition remove_try :: "env \<Rightarrow> string \<Rightarrow> world \<Rightarrow> (error + unit) \<times> world" where
  "remove_try e projectId w =
     (case exec_with_lock_recovery e (removeCommand projectId) (unlockCommand projectId) w of
        (Inl x, w1) \<Rightarrow> (Inl (Thrown x), w1)
      | (Inr result, w1) \<Rightarrow>
          (case prisma_project_update e (ProjectUpdateArn projectId None) projectId
                  (\<lambda>p. p\<lparr>awsSecretsManagerRotationLambdaArn := None\<rparr>) w1 of
             (Some x, w2) \<Rightarrow> (Inl (Thrown x), w2)
           | (None, w2) \<Rightarrow> (Inr (), w2)))"

definition remove_failure :: "error \<Rightarrow> error" where
  "remove_failure error =
     InternalServerErrorException
       (''Removal failed. Message: '' @ err_message error @ ''. '' @ [CHR 0x0A]
          @ ''Stderr: '' @ slice_last 1000 (or_empty (err_stderr error)))"

definition removeRotationLambdaInternal ::
  "env \<Rightarrow> string \<Rightarrow> world \<Rightarrow> (error + unit) \<times> world" where
  "removeRotationLambdaInternal e projectId w =
     (case project_by_id w projectId of
        None \<Rightarrow> (Inl (NotFoundException (''Project not found: '' @ projectId)), w)
      | Some project \<Rightarrow>
          (case remove_try e projectId w of
             (Inr u, w1) \<Rightarrow> (Inr u, w1)
           | (Inl error, w1) \<Rightarrow> (Inl (remove_failure error), w1)))"










section \<open>The rotation strategies: finishSecret\<close>

text \<open>
  The argument \<^verbatim>\<open>currentSecret\<close> of \<^verbatim>\<open>finishSecret\<close>, of which the strategies
  read \<^verbatim>\<open>VersionId\<close> and \<^verbatim>\<open>SecretString\<close>.
\<close>

record current_secret =
  VersionId :: "string option"
  CurrentSecretString :: "string option"

definition RdsPostgresStrategy_finishSecret ::
  "env \<Rightarrow> string \<Rightarrow> string \<Rightarrow> current_secret \<Rightarrow> world \<Rightarrow> (error + unit) \<times> world" where
  "RdsPostgresStrategy_finishSecret e secretId token currentSecret w =
     (case send e (UpdateSecretVersionStageCommand secretId ''AWSCURRENT'' token
                     (VersionId currentSecret)) w of
        (Inl x, w1) \<Rightarrow> (Inl (Thrown x), w1)
      | (Inr reply, w1) \<Rightarrow> (Inr (), w1))"

definition RdsMysqlStrategy_finishSecret ::
  "env \<Rightarrow> string \<Rightarrow> string \<Rightarrow> current_secret \<Rightarrow> world \<Rightarrow> (error + unit) \<times> world" where
  "RdsMysqlStrategy_finishSecret e secretId token currentSecret w =
     (case send e (UpdateSecretVersionStageCommand secretId ''AWSCURRENT'' token
                     (VersionId currentSecret)) w of
        (Inl x, w1) \<Rightarrow> (Inl (Thrown x), w1)
      | (Inr reply, w1) \<Rightarrow> (Inr (), w1))"

definition DocumentDbStrategy_finishSecret ::
  "env \<Rightarrow> string \<Rightarrow> string \<Rightarrow> current_secret \<Rightarrow> world \<Rightarrow> (error + unit) \<times> world" where
  "DocumentDbStrategy_finishSecret e secretId token currentSecret w =
     (case send e (UpdateSecretVersionStageCommand secretId ''AWSCURRENT'' token
                     (VersionId currentSecret)) w of
        (Inl x, w1) \<Rightarrow> (Inl (Thrown x), w1)
      | (Inr reply, w1) \<Rightarrow> (Inr (), w1))"

definition GenericStrategy_finishSecret ::
  "env \<Rightarrow> string \<Rightarrow> string \<Rightarrow> current_secret \<Rightarrow> world \<Rightarrow> (error + unit) \<times> world" where
  "GenericStrategy_finishSecret e secretId token currentSecret w =
     (case send e (UpdateSecretVersionStageCommand secretId ''AWSCURRENT'' token
                     (VersionId currentSecret)) w of
        (Inl x, w1) \<Rightarrow> (Inl (Thrown x), w1)
      | (Inr reply, w1) \<Rightarrow> (Inr (), w1))"

text \<open>\<^verbatim>\<open>await iamClient.send(command)\<close>\<close>

definition iam_send :: "env \<Rightarrow> iam_command \<Rightarrow> world \<Rightarrow> ext_error option \<times> world" where
  "iam_send e c w = (iam e (trace w) c, log_event (Iam c) w)"

text \<open>
  The identity-key strategy moves the stage the same way and then deactivates and
  deletes the superseded access key; a failure of either clean-up call is caught
  and only logged.
\<close>

definition AwsApiKeyStrategy_finishSecret ::
  "env \<Rightarrow> string \<Rightarrow> string \<Rightarrow> current_secret \<Rightarrow> world \<Rightarrow> (error + unit) \<times> world" where
  "AwsApiKeyStrategy_finishSecret e secretId token currentSecret w =
     (case send e (UpdateSecretVersionStageCommand secretId ''AWSCURRENT'' token
                     (VersionId currentSecret)) w of
        (Inl x, w1) \<Rightarrow> (Inl (Thrown x), w1)
      | (Inr reply, w1) \<Rightarrow>
          (case json_parse e (if truthy (CurrentSecretString currentSecret)
                              then or_empty (CurrentSecretString currentSecret) else ''{}'') of
             Inl x \<Rightarrow> (Inl (Thrown x), w1)
           | Inr (Some accessKey, Some username) \<Rightarrow>
               (case iam_send e (UpdateAccessKeyCommand username accessKey ''Inactive'') w1 of
                  (Some x, w2) \<Rightarrow> (Inr (), w2)
                | (None, w2) \<Rightarrow>
                    (case iam_send e (DeleteAccessKeyCommand username accessKey) w2 of
                       (r, w3) \<Rightarrow> (Inr (), w3)))
           | Inr other \<Rightarrow> (Inr (), w1)))"

datatype strategy =
    RdsPostgresStrategy | RdsMysqlStrategy | DocumentDbStrategy | AwsApiKeyStrategy
  | GenericStrategy

text \<open>The method \<^verbatim>\<open>finishSecret\<close> of the interface \<^verbatim>\<open>RotationStrategy\<close>, by implementation.\<close>

fun finishSecret ::
  "strategy \<Rightarrow> env \<Rightarrow> string \<Rightarrow> string \<Rightarrow> current_secret \<Rightarrow> world \<Rightarrow> (error + unit) \<times> world" where
  "finishSecret RdsPostgresStrategy = RdsPostgresStrategy_finishSecret"
| "finishSecret RdsMysqlStrategy = RdsMysqlStrategy_finishSecret"
| "finishSecret DocumentDbStrategy = DocumentDbStrategy_finishSecret"
| "finishSecret AwsApiKeyStrategy = AwsApiKeyStrategy_finishSecret"
| "finishSecret GenericStrategy = GenericStrategy_finishSecret"

section \<open>Reading the record of calls\<close>

fun sent :: "event list \<Rightarrow> command list" where
  "sent [] = []"
| "sent (Send c # evs) = c # sent evs"
| "sent (ev # evs) = sent evs"

fun execs :: "event list \<Rightarrow> string list" where
  "execs [] = []"
| "execs (Exec c # evs) = c # execs evs"
| "execs (ev # evs) = execs evs"

fun db_writes :: "event list \<Rightarrow> db_op list" where
  "db_writes [] = []"
| "db_writes (Db op # evs) = op # db_writes evs"
| "db_writes (ev # evs) = db_writes evs"

text \<open>The calls a run added to the record it started from.\<close>

definition new_events :: "world \<Rightarrow> world \<Rightarrow> event list" where
  "new_events w w' = drop (length (trace w)) (trace w')"

section \<open>Vocabulary of the statements\<close>

text \<open>The two commands \<^verbatim>\<open>createSecret\<close> builds from its parameters.\<close>

definition create_command :: "create_params \<Rightarrow> command" where
  "create_command params =
     CreateSecretCommand (c_name params) (c_description params) (c_secretValue params)"

definition rotate_command :: "create_params \<Rightarrow> aws_config \<Rightarrow> command" where
  "rotate_command params projectConfig =
     RotateSecretCommand (c_name params) (rotationLambdaArn projectConfig)
       (Some (case c_rotationRules params of None \<Rightarrow> 30 | Some d \<Rightarrow> d))"

text \<open>The vault calls of a \<^verbatim>\<open>createSecret\<close> that reaches the write to the local store.\<close>

definition calls_up_to_persist :: "create_params \<Rightarrow> aws_config \<Rightarrow> event list" where
  "calls_up_to_persist params projectConfig =
     [Send (DescribeSecretCommand (c_name params)), Send (create_command params)]
       @ (if c_enableRotation params then [Send (rotate_command params projectConfig)] else [])"

fun is_delete :: "command \<Rightarrow> bool" where
  "is_delete (DeleteSecretCommand n f r) = True"
| "is_delete c = False"

text \<open>The error of the first branch of the rotation prerequisites.\<close>

definition unsupported_type_error :: "SecretType \<Rightarrow> error" where
  "unsupported_type_error ty =
     BadRequestException (''Secret type '' @ show_type ty @ '' does not support automatic rotation'')"

text \<open>
The errors the service constructs in \<^verbatim>\<open>createSecret\<close> and \<^verbatim>\<open>updateSecret\<close>.
\<close>

definition lambda_arn_missing_error :: error where
  "lambda_arn_missing_error =
     BadRequestException ''Lambda ARN is not configured in Project Settings, cannot enable rotation''"

definition name_conflict_error :: "string \<Rightarrow> error" where
  "name_conflict_error name =
     ConflictException (''Secret name '' @ [CHR 0x22] @ name @ [CHR 0x22] @ '' already exists'')"

definition rotation_failure :: "ext_error \<Rightarrow> error" where
  "rotation_failure xr =
     BadRequestException (''Failed to enable rotation: '' @ ext_message xr)"

definition update_failure :: "ext_error \<Rightarrow> error" where
  "update_failure x = BadRequestException (''Failed to update AWS Secret: '' @ ext_message x)"


text \<open>
Shapes of a result: a BadRequestException (the InvalidConfiguration of the
specification), any failure.
\<close>

definition is_bad_request :: "error + 'a \<Rightarrow> bool" where
  "is_bad_request r = (case r of Inl (BadRequestException m) \<Rightarrow> True | other \<Rightarrow> False)"

definition is_failure :: "error + 'a \<Rightarrow> bool" where
  "is_failure r = (case r of Inl err \<Rightarrow> True | Inr v \<Rightarrow> False)"

text \<open>
The three credential columns of a project are set, and
\<^verbatim>\<open>getProjectAwsConfig\<close> returns a configuration.
\<close>

definition credentials_configured :: "project \<Rightarrow> bool" where
  "credentials_configured p =
     (truthy (awsSecretsManagerAccessKeyId p) \<and> truthy (awsSecretsManagerSecretAccessKey p)
      \<and> truthy (awsSecretsManagerRegion p))"

definition config_resolves :: "world \<Rightarrow> string \<Rightarrow> bool" where
  "config_resolves w projectId =
     (case getProjectAwsConfig w projectId of Inl err \<Rightarrow> False | Inr c \<Rightarrow> True)"

text \<open>
The commands \<^verbatim>\<open>updateSecret\<close> and \<^verbatim>\<open>deleteSecret\<close> build for a secret.
\<close>

definition update_command :: "secret \<Rightarrow> string \<Rightarrow> string option \<Rightarrow> command" where
  "update_command secret v description = UpdateSecretCommand (s_name secret) v description"

definition delete_command :: "secret \<Rightarrow> bool \<Rightarrow> command" where
  "delete_command secret forceDelete =
     DeleteSecretCommand (s_name secret) forceDelete (if forceDelete then None else Some 30)"

text \<open>
The local store performs the delete of a secret, and the status writes of a
project, whenever they are issued.
\<close>

definition store_accepts_delete :: "env \<Rightarrow> string \<Rightarrow> bool" where
  "store_accepts_delete e secretId = (\<forall>tr. db_fault e tr (SecretDelete secretId) = None)"


text \<open>
The test of lines 470 and 588 on the error of the failed run.
\<close>

definition lock_detected :: "ext_error \<Rightarrow> bool" where
  "lock_detected x =
     (str_includes (or_empty (ext_stdout x)) ''Locked''
      \<and> str_includes (or_empty (ext_stdout x)) ''sst unlock'')"

text \<open>
The two background runs, their provisioning commands, the error each wraps a
failure in, and their internal methods read as the error they end with, if any.
\<close>

datatype run = Deploy | Remove

fun provisioning_command :: "run \<Rightarrow> string \<Rightarrow> string" where
  "provisioning_command Deploy projectId = deployCommand projectId"
| "provisioning_command Remove projectId = removeCommand projectId"

fun run_failure :: "run \<Rightarrow> ext_error \<Rightarrow> error" where
  "run_failure Deploy x = deploy_failure (Thrown x)"
| "run_failure Remove x = remove_failure (Thrown x)"

fun run_internal :: "run \<Rightarrow> env \<Rightarrow> string \<Rightarrow> world \<Rightarrow> error option \<times> world" where
  "run_internal Deploy e projectId w =
     (case deployRotationLambdaInternal e projectId w of
        (Inl err, w1) \<Rightarrow> (Some err, w1) | (Inr arn, w1) \<Rightarrow> (None, w1))"
| "run_internal Remove e projectId w =
     (case removeRotationLambdaInternal e projectId w of
        (Inl err, w1) \<Rightarrow> (Some err, w1) | (Inr u, w1) \<Rightarrow> (None, w1))"




text \<open>
The row \<^verbatim>\<open>updateSecret\<close> writes for a secret: the description when one is
given, and the time of the update.
\<close>

definition updated_secret :: "env \<Rightarrow> string option \<Rightarrow> secret \<Rightarrow> secret" where
  "updated_secret e description secret =
     secret\<lparr>s_description := (case description of None \<Rightarrow> s_description secret
                               | Some d \<Rightarrow> Some d),
            s_updatedAt := now e\<rparr>"

section \<open>Concrete inputs\<close>

definition not_found_error :: ext_error where
  "not_found_error = ExtError ''ResourceNotFoundException'' None ''Secret not found'' None None"

definition access_denied_error :: ext_error where
  "access_denied_error = ExtError ''AccessDeniedException'' None ''Access denied'' None None"

definition throttled_error :: ext_error where
  "throttled_error = ExtError ''ThrottlingException'' None ''Rate exceeded'' None None"

definition store_down_error :: ext_error where
  "store_down_error =
     ExtError ''PrismaClientInitializationError'' (Some ''P1001'') ''Cannot reach database''
       None None"

definition project_p1 :: project where
  "project_p1 =
     \<lparr>p_id = ''p1'', p_name = ''demo'',
      awsSecretsManagerAccessKeyId = Some ''AK'',
      awsSecretsManagerSecretAccessKey = Some ''SK'',
      awsSecretsManagerRegion = Some ''eu-west-1'',
      awsSecretsManagerRotationLambdaArn = Some ''arn:aws:lambda:rot'',
      awsSecretsManagerDeploymentStatus = None,
      awsSecretsManagerDeploymentMessage = None\<rparr>"

definition project_p2 :: project where
  "project_p2 = project_p1\<lparr>p_id := ''p2'', awsSecretsManagerRotationLambdaArn := None\<rparr>"

definition config_p1 :: aws_config where
  "config_p1 =
     \<lparr>accessKeyId = ''AK'', secretAccessKey = ''SK'', region = ''eu-west-1'',
      rotationLambdaArn = Some ''arn:aws:lambda:rot''\<rparr>"

definition world_empty :: world where
  "world_empty =
     \<lparr>secrets = [], projects = [project_p1, project_p2], activeDeployments = {}, trace = []\<rparr>"

text \<open>A vault that holds no secret yet and accepts every other command.\<close>

fun vault_fresh :: "event list \<Rightarrow> command \<Rightarrow> ext_error + string option" where
  "vault_fresh tr (DescribeSecretCommand n) = Inl not_found_error"
| "vault_fresh tr (CreateSecretCommand n d v) = Inr (Some ''arn:aws:secretsmanager:s1'')"
| "vault_fresh tr c = Inr None"

definition env_ok :: env where
  "env_ok =
     \<lparr>vault = vault_fresh,
      iam = (\<lambda>tr c. None),
      db_fault = (\<lambda>tr op. None),
      exec = (\<lambda>tr c. Inr (''lambdaArn: arn:aws:lambda:rot'', [])),
      gen_id = ''s1'',
      now = 7,
      match_arn = (\<lambda>out. Some ''arn:aws:lambda:rot''),
      json_parse = (\<lambda>doc. Inr (Some ''AKIAOLD'', Some ''svc''))\<rparr>"

definition env_store_down :: env where
  "env_store_down = env_ok\<lparr>db_fault := (\<lambda>tr op. Some store_down_error)\<rparr>"

definition params_db1 :: create_params where
  "params_db1 =
     \<lparr>c_projectId = ''p1'', c_name = ''db-1'', c_type = RDS_CREDENTIALS,
      c_secretValue = ''{}'', c_description = None, c_enableRotation = True,
      c_rotationRules = None, c_awsRegion = None\<rparr>"

text \<open>
A vault that accepts the create and refuses both the rotation and every delete.
\<close>

definition env_rollback_denied :: env where
  "env_rollback_denied =
     env_ok\<lparr>vault := (\<lambda>tr c. case c of
                 DescribeSecretCommand n \<Rightarrow> Inl not_found_error
               | CreateSecretCommand n d v \<Rightarrow> Inr (Some ''arn:aws:secretsmanager:s1'')
               | RotateSecretCommand n a r \<Rightarrow> Inl throttled_error
               | DeleteSecretCommand n f r \<Rightarrow> Inl access_denied_error
               | other \<Rightarrow> Inr None)\<rparr>"

text \<open>
Vaults that refuse every command: access denied, and not found.
\<close>

definition env_vault_denied :: env where
  "env_vault_denied = env_ok\<lparr>vault := (\<lambda>tr c. Inl access_denied_error)\<rparr>"

definition env_vault_gone :: env where
  "env_vault_gone = env_ok\<lparr>vault := (\<lambda>tr c. Inl not_found_error)\<rparr>"

text \<open>
A secret named db-1 in the store: in project p2, in project p1, and in a
project that does not exist.
\<close>

definition secret_db1 :: secret where
  "secret_db1 =
     \<lparr>s_id = ''s0'', s_projectId = ''p2'', s_name = ''db-1'', s_type = GENERIC_SECRET,
      s_awsSecretArn = Some ''arn:aws:secretsmanager:s0'', s_awsRegion = ''eu-west-1'',
      s_enableRotation = False, s_rotationLambdaArn = None, s_rotationRules = None,
      s_description = Some ''first'', s_lastRotatedAt = None, s_createdAt = 1, s_updatedAt = 1\<rparr>"

definition world_db1 :: world where
  "world_db1 = world_empty\<lparr>secrets := [secret_db1]\<rparr>"

definition secret_p1 :: secret where
  "secret_p1 = secret_db1\<lparr>s_projectId := ''p1''\<rparr>"

definition world_p1 :: world where
  "world_p1 = world_empty\<lparr>secrets := [secret_p1]\<rparr>"

definition secret_orphan :: secret where
  "secret_orphan = secret_db1\<lparr>s_projectId := ''p9''\<rparr>"

definition world_orphan :: world where
  "world_orphan = world_empty\<lparr>secrets := [secret_orphan]\<rparr>"

definition params_generic_p2 :: create_params where
  "params_generic_p2 =
     \<lparr>c_projectId = ''p2'', c_name = ''db-1'', c_type = GENERIC_SECRET,
      c_secretValue = ''{}'', c_description = None, c_enableRotation = True,
      c_rotationRules = None, c_awsRegion = None\<rparr>"

definition params_plain_p2 :: create_params where
  "params_plain_p2 = params_generic_p2\<lparr>c_enableRotation := False\<rparr>"

definition config_p2 :: aws_config where
  "config_p2 = config_p1\<lparr>rotationLambdaArn := None\<rparr>"

definition current_v1 :: current_secret where
  "current_v1 = \<lparr>VersionId = Some ''v1'', CurrentSecretString = Some ''{...}''\<rparr>"



text \<open>
Failures of the provisioning tool: with the lock sentinels in stdout, of the
unlock, and without sentinels.
\<close>

definition locked_error :: ext_error where
  "locked_error =
     ExtError ''Error'' None ''Command failed'' (Some ''Locked: run sst unlock'') (Some [])"

definition unlock_error :: ext_error where
  "unlock_error = ExtError ''Error'' None ''Unlock failed'' (Some []) (Some ''no state'')"

definition plain_exec_error :: ext_error where
  "plain_exec_error = ExtError ''Error'' None ''Command failed'' (Some ''npm ERR'') (Some [])"

text \<open>
A tool that reports the lock on every run and cannot unlock; one that unlocks;
one that fails without reporting a lock.
\<close>

definition env_locked :: env where
  "env_locked =
     env_ok\<lparr>exec := (\<lambda>tr c. if c = unlockCommand ''p1'' then Inl unlock_error
                               else Inl locked_error)\<rparr>"

definition env_locked_twice :: env where
  "env_locked_twice =
     env_ok\<lparr>exec := (\<lambda>tr c. if c = unlockCommand ''p1'' then Inr ([], [])
                               else Inl locked_error)\<rparr>"

definition env_plain_failure :: env where
  "env_plain_failure = env_ok\<lparr>exec := (\<lambda>tr c. Inl plain_exec_error)\<rparr>"

section \<open>Basic facts\<close>

lemma trace_log_event [simp]: "trace (log_event ev w) = trace w @ [ev]"
  by (simp add: log_event_def)

lemma secrets_log_event [simp]: "secrets (log_event ev w) = secrets w"
  by (simp add: log_event_def)

lemma projects_log_event [simp]: "projects (log_event ev w) = projects w"
  by (simp add: log_event_def)

lemma active_log_event [simp]: "activeDeployments (log_event ev w) = activeDeployments w"
  by (simp add: log_event_def)

lemma sent_append [simp]: "sent (xs @ ys) = sent xs @ sent ys"
  by (induction xs rule: sent.induct) simp_all

lemma execs_append [simp]: "execs (xs @ ys) = execs xs @ execs ys"
  by (induction xs rule: execs.induct) simp_all

lemma db_writes_append [simp]: "db_writes (xs @ ys) = db_writes xs @ db_writes ys"
  by (induction xs rule: db_writes.induct) simp_all

lemma isRotationSupported_every_type: "isRotationSupported t"
  by (cases t) simp_all

lemma rotation_prerequisites_eq:
  "rotation_prerequisites enableRot ty lambdaArn =
     (if enableRot \<and> \<not> truthy lambdaArn
      then Some (BadRequestException
             ''Lambda ARN is not configured in Project Settings, cannot enable rotation'')
      else None)"
  unfolding rotation_prerequisites_def using isRotationSupported_every_type by simp

lemma getProjectAwsConfig_error:
  "getProjectAwsConfig w i = Inl err \<Longrightarrow>
     (\<exists>m. err = NotFoundException m) \<or> (\<exists>m. err = BadRequestException (''Project '' @ m))"
  by (auto simp: getProjectAwsConfig_def split: option.splits if_splits)

lemma describe_probe_error:
  "describe_probe e n w = (Some err, w1) \<Longrightarrow> (\<exists>m. err = ConflictException m) \<or> (\<exists>x. err = Thrown x)"
  by (auto simp: describe_probe_def send_def Let_def split: sum.splits if_splits)

lemma enable_rotation_step_error:
  "enable_rotation_step e n a r w = (Some err, w1) \<Longrightarrow>
     (\<exists>m. err = BadRequestException (''Failed to enable rotation: '' @ m)) \<or> (\<exists>x. err = Thrown x)"
  by (auto simp: enable_rotation_step_def enableRotation_def send_def split: sum.splits prod.splits)

lemma create_try_error:
  "create_try e params cfg a w = ((Inl err, c), w1) \<Longrightarrow>
     (\<exists>m. err = BadRequestException (''Failed to enable rotation: '' @ m)) \<or> (\<exists>x. err = Thrown x)"
  unfolding create_try_def
  by (auto split: sum.splits prod.splits option.splits if_splits dest: enable_rotation_step_error)

lemma create_catch_fst: "fst (create_catch e n c err w) = Inl err"
  by (simp add: create_catch_def split: prod.splits)

lemma createSecret_error:
  assumes "fst (createSecret e params w) = Inl err"
  shows "(\<exists>m. err = NotFoundException m) \<or> (\<exists>m. err = ConflictException m) \<or> (\<exists>x. err = Thrown x)
       \<or> (\<exists>m. err = BadRequestException (''Project '' @ m))
       \<or> (\<exists>m. err = BadRequestException (''Failed to enable rotation: '' @ m))
       \<or> err = BadRequestException
             ''Lambda ARN is not configured in Project Settings, cannot enable rotation''"
  using assms unfolding createSecret_def rotation_prerequisites_eq Let_def
  by (auto split: sum.splits option.splits prod.splits if_splits
      dest: getProjectAwsConfig_error describe_probe_error create_try_error simp: create_catch_fst)

lemma new_events_append [simp]: "trace w' = trace w @ evs \<Longrightarrow> new_events w w' = evs"
  by (simp add: new_events_def)

lemma createSecret_reaches_try:
  assumes cfg: "getProjectAwsConfig w (c_projectId params) = Inr projectConfig"
    and pre: "c_enableRotation params \<longrightarrow> truthy (rotationLambdaArn projectConfig)"
    and fresh: "secret_by_name w (c_name params) = None"
    and probe: "vault e (trace w) (DescribeSecretCommand (c_name params)) = Inl xn"
               "ext_name xn = ''ResourceNotFoundException''"
  shows "createSecret e params w =
     (case create_try e params projectConfig
             (if c_enableRotation params then rotationLambdaArn projectConfig else None)
             (log_event (Send (DescribeSecretCommand (c_name params))) w) of
        ((Inr dbRecord, created), w2) \<Rightarrow> (Inr dbRecord, w2)
      | ((Inl error, created), w2) \<Rightarrow> create_catch e (c_name params) created error w2)"
  using assms
  by (simp add: createSecret_def rotation_prerequisites_eq describe_probe_def send_def Let_def)

lemma project_by_id_p1: "project_by_id world_empty ''p1'' = Some project_p1"
  by (simp add: project_by_id_def world_empty_def project_p1_def)

lemma config_world_empty_p1: "getProjectAwsConfig world_empty ''p1'' = Inr config_p1"
  by (simp add: getProjectAwsConfig_def project_by_id_p1 config_p1_def)
     (simp add: project_p1_def truthy_def or_empty_def)

lemma project_by_id_p2: "project_by_id world_empty ''p2'' = Some project_p2"
  by (simp add: project_by_id_def world_empty_def project_p1_def project_p2_def)

lemma secret_by_id_log_event [simp]: "secret_by_id (log_event ev w) i = secret_by_id w i"
  by (simp add: secret_by_id_def)

lemma secret_by_id_filter: "find (\<lambda>s. s_id s = i) (filter (\<lambda>r. s_id r \<noteq> i) xs) = None"
  by (induction xs) simp_all

lemma secret_by_id_world_p1: "secret_by_id world_p1 ''s0'' = Some secret_p1"
  by (simp add: secret_by_id_def world_p1_def secret_p1_def secret_db1_def)

lemma secret_by_id_world_orphan: "secret_by_id world_orphan ''s0'' = Some secret_orphan"
  by (simp add: secret_by_id_def world_orphan_def secret_orphan_def secret_db1_def)

lemma config_resolves_world_p1: "config_resolves world_p1 ''p1''"
  by (simp add: config_resolves_def getProjectAwsConfig_def project_by_id_def world_p1_def
      world_empty_def project_p1_def truthy_def)

lemma config_fails_world_orphan: "\<not> config_resolves world_orphan ''p9''"
  by (simp add: config_resolves_def getProjectAwsConfig_def project_by_id_def world_orphan_def
      world_empty_def project_p1_def project_p2_def)

lemma project_by_id_log_event [simp]: "project_by_id (log_event ev w) i = project_by_id w i"
  by (simp add: project_by_id_def)

lemma find_holds: "find P xs = Some y \<Longrightarrow> P y"
  by (induction xs) (auto split: if_splits)


lemma projects_execAsync [simp]: "projects (snd (execAsync e c w)) = projects w"
  and active_execAsync [simp]: "activeDeployments (snd (execAsync e c w)) = activeDeployments w"
  and trace_execAsync [simp]: "trace (snd (execAsync e c w)) = trace w @ [Exec c]"
  and fst_execAsync [simp]: "fst (execAsync e c w) = exec e (trace w) c"
  by (simp_all add: execAsync_def)

lemma recovery_projects [simp]:
  "projects (snd (exec_with_lock_recovery e c u w)) = projects w"
  by (simp add: exec_with_lock_recovery_def execAsync_def Let_def split: sum.splits prod.splits)

lemma recovery_active [simp]:
  "activeDeployments (snd (exec_with_lock_recovery e c u w)) = activeDeployments w"
  by (simp add: exec_with_lock_recovery_def execAsync_def Let_def split: sum.splits prod.splits)


lemma project_update_active [simp]:
  "activeDeployments (snd (prisma_project_update e op i f w)) = activeDeployments w"
  by (simp add: prisma_project_update_def Let_def split: option.splits)







lemma recovery_first_failure:
  assumes "exec e (trace w) c = Inl x1"
  shows "exec_with_lock_recovery e c u w =
     (if lock_detected x1
      then (case exec e (trace w @ [Exec c]) u of
              Inl xu \<Rightarrow> (Inl xu, log_event (Exec u) (log_event (Exec c) w))
            | Inr unlocked \<Rightarrow>
                (exec e (trace w @ [Exec c, Exec u]) c,
                 log_event (Exec c) (log_event (Exec u) (log_event (Exec c) w))))
      else (Inl x1, log_event (Exec c) w))"
  using assms
  by (simp add: exec_with_lock_recovery_def execAsync_def lock_detected_def Let_def
      split: sum.splits)

lemma deploy_try_first_failure:
  assumes "exec e (trace w) (deployCommand i) = Inl x1"
  shows "(\<not> lock_detected x1 \<longrightarrow>
            fst (deploy_try e i w) = Inl (Thrown x1)
          \<and> execs (new_events w (snd (deploy_try e i w))) = [deployCommand i])
       \<and> (lock_detected x1 \<longrightarrow>
            (case exec e (trace w @ [Exec (deployCommand i)]) (unlockCommand i) of
               Inl xu \<Rightarrow>
                 fst (deploy_try e i w) = Inl (Thrown xu)
                 \<and> execs (new_events w (snd (deploy_try e i w))) =
                     [deployCommand i, unlockCommand i]
             | Inr unlocked \<Rightarrow>
                 execs (new_events w (snd (deploy_try e i w))) =
                   [deployCommand i, unlockCommand i, deployCommand i]
                 \<and> (case exec e (trace w @ [Exec (deployCommand i), Exec (unlockCommand i)])
                            (deployCommand i) of
                      Inl x2 \<Rightarrow> fst (deploy_try e i w) = Inl (Thrown x2)
                    | Inr out \<Rightarrow> True)))"
  unfolding deploy_try_def recovery_first_failure [OF assms]
  by (simp add: new_events_def prisma_project_update_def Let_def
      split: sum.splits option.splits prod.splits)

lemma remove_try_first_failure:
  assumes "exec e (trace w) (removeCommand i) = Inl x1"
  shows "(\<not> lock_detected x1 \<longrightarrow>
            fst (remove_try e i w) = Inl (Thrown x1)
          \<and> execs (new_events w (snd (remove_try e i w))) = [removeCommand i])
       \<and> (lock_detected x1 \<longrightarrow>
            (case exec e (trace w @ [Exec (removeCommand i)]) (unlockCommand i) of
               Inl xu \<Rightarrow>
                 fst (remove_try e i w) = Inl (Thrown xu)
                 \<and> execs (new_events w (snd (remove_try e i w))) =
                     [removeCommand i, unlockCommand i]
             | Inr unlocked \<Rightarrow>
                 execs (new_events w (snd (remove_try e i w))) =
                   [removeCommand i, unlockCommand i, removeCommand i]
                 \<and> (case exec e (trace w @ [Exec (removeCommand i), Exec (unlockCommand i)])
                            (removeCommand i) of
                      Inl x2 \<Rightarrow> fst (remove_try e i w) = Inl (Thrown x2)
                    | Inr out \<Rightarrow> True)))"
  unfolding remove_try_def recovery_first_failure [OF assms]
  by (simp add: new_events_def prisma_project_update_def Let_def
      split: sum.splits option.splits prod.splits)

lemma run_internal_deploy:
  assumes "project_by_id w i = Some project" "credentials_configured project"
  shows "run_internal Deploy e i w =
     (case deploy_try e i w of
        (Inl err, w1) \<Rightarrow> (Some (deploy_failure err), w1) | (Inr arn, w1) \<Rightarrow> (None, w1))"
  using assms
  by (simp add: deployRotationLambdaInternal_def credentials_configured_def
      split: prod.splits sum.splits)

lemma run_internal_remove:
  assumes "project_by_id w i = Some project"
  shows "run_internal Remove e i w =
     (case remove_try e i w of
        (Inl err, w1) \<Rightarrow> (Some (remove_failure err), w1) | (Inr arn, w1) \<Rightarrow> (None, w1))"
  using assms
  by (simp add: removeRotationLambdaInternal_def split: prod.splits sum.splits)

lemma fst_snd_case_try:
  "fst (case r of (Inl err, w1) \<Rightarrow> (Some (f err), w1) | (Inr v, w1) \<Rightarrow> (None, w1)) =
     (case fst r of Inl err \<Rightarrow> Some (f err) | Inr v \<Rightarrow> None)"
  "snd (case r of (Inl err, w1) \<Rightarrow> (Some (f err), w1) | (Inr v, w1) \<Rightarrow> (None, w1)) = snd r"
  by (auto split: prod.splits sum.splits)

lemma lock_detected_locked_error: "lock_detected locked_error"
  by (simp add: lock_detected_def locked_error_def or_empty_def)

lemma find_map_same_sid:
  assumes "\<And>r. s_id (f r) = s_id r"
  shows "find (\<lambda>r. s_id r = j) (map (\<lambda>r. if s_id r = i then f r else r) rs) =
         map_option (\<lambda>r. if s_id r = i then f r else r) (find (\<lambda>r. s_id r = j) rs)"
  using assms by (induction rs) auto

lemma status_update_active [simp]:
  "activeDeployments (updateDeploymentStatus e i s m w) = activeDeployments w"
proof -
  let ?m = "if truthy m then m else None"
  obtain r w1 where r: "prisma_project_update e (ProjectUpdateStatus i s ?m) i
      (\<lambda>p. p\<lparr>awsSecretsManagerDeploymentStatus := Some s,
              awsSecretsManagerDeploymentMessage := ?m\<rparr>) w = (r, w1)"
    by fastforce
  have "activeDeployments w1 = activeDeployments w"
    using project_update_active [of e "ProjectUpdateStatus i s ?m" i
      "\<lambda>p. p\<lparr>awsSecretsManagerDeploymentStatus := Some s,
              awsSecretsManagerDeploymentMessage := ?m\<rparr>" w] r by simp
  with r show ?thesis
    by (simp add: updateDeploymentStatus_def Let_def)
qed

lemma deploy_try_active [simp]:
  "activeDeployments (snd (deploy_try e i w)) = activeDeployments w"
proof -
  obtain r w1 where r: "exec_with_lock_recovery e (deployCommand i) (unlockCommand i) w = (r, w1)"
    by fastforce
  have a: "activeDeployments w1 = activeDeployments w"
    using recovery_active [of e "deployCommand i" "unlockCommand i" w] r by simp
  show ?thesis
  proof (cases r)
    case (Inl x)
    with r a show ?thesis by (simp add: deploy_try_def)
  next
    case (Inr out)
    obtain stdout stderr where out: "out = (stdout, stderr)" by (cases out)
    obtain u w2 where u: "prisma_project_update e (ProjectUpdateArn i (match_arn e stdout)) i
        (\<lambda>p. p\<lparr>awsSecretsManagerRotationLambdaArn := match_arn e stdout\<rparr>) w1 = (u, w2)"
      by fastforce
    have "activeDeployments w2 = activeDeployments w1"
      using project_update_active [of e "ProjectUpdateArn i (match_arn e stdout)" i
          "\<lambda>p. p\<lparr>awsSecretsManagerRotationLambdaArn := match_arn e stdout\<rparr>" w1] u by simp
    with r a Inr out u show ?thesis
      by (simp add: deploy_try_def Let_def split: option.splits)
  qed
qed

lemma remove_try_active [simp]:
  "activeDeployments (snd (remove_try e i w)) = activeDeployments w"
proof -
  obtain r w1 where r: "exec_with_lock_recovery e (removeCommand i) (unlockCommand i) w = (r, w1)"
    by fastforce
  have a: "activeDeployments w1 = activeDeployments w"
    using recovery_active [of e "removeCommand i" "unlockCommand i" w] r by simp
  show ?thesis
  proof (cases r)
    case (Inl x)
    with r a show ?thesis by (simp add: remove_try_def)
  next
    case (Inr out)
    obtain u w2 where u: "prisma_project_update e (ProjectUpdateArn i None) i
        (\<lambda>p. p\<lparr>awsSecretsManagerRotationLambdaArn := None\<rparr>) w1 = (u, w2)"
      by fastforce
    have "activeDeployments w2 = activeDeployments w1"
      using project_update_active [of e "ProjectUpdateArn i None" i
          "\<lambda>p. p\<lparr>awsSecretsManagerRotationLambdaArn := None\<rparr>" w1] u by simp
    with r a Inr u show ?thesis
      by (simp add: remove_try_def split: option.splits)
  qed
qed

lemma deploy_internal_active [simp]:
  "activeDeployments (snd (deployRotationLambdaInternal e i w)) = activeDeployments w"
proof -
  obtain r w1 where r: "deploy_try e i w = (r, w1)" by fastforce
  have "activeDeployments w1 = activeDeployments w"
    using deploy_try_active [of e i w] r by simp
  with r show ?thesis
    by (simp add: deployRotationLambdaInternal_def split: option.splits sum.splits)
qed

lemma remove_internal_active [simp]:
  "activeDeployments (snd (removeRotationLambdaInternal e i w)) = activeDeployments w"
proof -
  obtain r w1 where r: "remove_try e i w = (r, w1)" by fastforce
  have "activeDeployments w1 = activeDeployments w"
    using remove_try_active [of e i w] r by simp
  with r show ?thesis
    by (simp add: removeRotationLambdaInternal_def split: option.splits sum.splits)
qed




section \<open>C1: rollback when the local store refuses the new secret\<close>

text \<open>
  C1. A \<^verbatim>\<open>createSecret\<close> call passes its checks, the existence probe answers
  "not found", the vault creates the secret, rotation (when requested) is
  registered, and the write to the local store then fails with the error \<open>x\<close>.
  The call surfaces \<open>x\<close> and leaves the local store as it was. When the code of
  \<open>x\<close> is not P2002, exactly one delete is sent to the vault, a forced delete of
  the secret just created, after the failed write and as the last call; when the
  code is P2002 no delete is sent.
\<close>

theorem createSecret_rollback_on_persist_failure:
  assumes cfg: "getProjectAwsConfig w (c_projectId params) = Inr projectConfig"
    and pre: "c_enableRotation params \<longrightarrow> truthy (rotationLambdaArn projectConfig)"
    and fresh: "secret_by_name w (c_name params) = None"
    and probe: "vault e (trace w) (DescribeSecretCommand (c_name params)) = Inl xn"
               "ext_name xn = ''ResourceNotFoundException''"
    and created: "vault e (trace w @ [Send (DescribeSecretCommand (c_name params))])
                    (create_command params) = Inr awsSecretArn"
    and rotated: "c_enableRotation params \<longrightarrow>
                    vault e (trace w @ [Send (DescribeSecretCommand (c_name params)),
                                        Send (create_command params)])
                      (rotate_command params projectConfig) = Inr reply"
    and persist: "db_fault e (trace w @ calls_up_to_persist params projectConfig)
                    (SecretCreate (c_name params)) = Some x"
  shows "fst (createSecret e params w) = Inl (Thrown x)
       \<and> secrets (snd (createSecret e params w)) = secrets w
       \<and> new_events w (snd (createSecret e params w)) =
           calls_up_to_persist params projectConfig @ [Db (SecretCreate (c_name params))]
             @ (if ext_code x \<noteq> Some ''P2002'' then [Send (force_delete (c_name params))] else [])
       \<and> filter is_delete (sent (new_events w (snd (createSecret e params w)))) =
           (if ext_code x \<noteq> Some ''P2002'' then [force_delete (c_name params)] else [])"
proof (cases "c_enableRotation params")
  case True
  with assms show ?thesis
    unfolding createSecret_reaches_try [OF cfg pre fresh probe]
    by (simp add: create_try_def send_def enable_rotation_step_def enableRotation_def
        prisma_secret_create_def create_catch_def calls_up_to_persist_def create_command_def
        rotate_command_def force_delete_def Let_def)
next
  case False
  with assms show ?thesis
    unfolding createSecret_reaches_try [OF cfg pre fresh probe]
    by (simp add: create_try_def send_def 
        prisma_secret_create_def create_catch_def calls_up_to_persist_def create_command_def
        rotate_command_def force_delete_def Let_def)
qed

theorem createSecret_rollback_on_persist_failure_witness:
  "fst (createSecret env_store_down params_db1 world_empty) = Inl (Thrown store_down_error)
   \<and> secrets (snd (createSecret env_store_down params_db1 world_empty)) = []
   \<and> sent (new_events world_empty (snd (createSecret env_store_down params_db1 world_empty))) =
       [DescribeSecretCommand ''db-1'', CreateSecretCommand ''db-1'' None ''{}'',
        RotateSecretCommand ''db-1'' (Some ''arn:aws:lambda:rot'') (Some 30),
        DeleteSecretCommand ''db-1'' True None]
   \<and> filter is_delete (sent (new_events world_empty
        (snd (createSecret env_store_down params_db1 world_empty)))) =
       [DeleteSecretCommand ''db-1'' True None]"
proof -
  have pre: "c_enableRotation params_db1 \<longrightarrow> truthy (rotationLambdaArn config_p1)"
    by (simp add: config_p1_def truthy_def)
  have fresh: "secret_by_name world_empty (c_name params_db1) = None"
    by (simp add: secret_by_name_def world_empty_def)
  have probe: "vault env_store_down (trace world_empty) (DescribeSecretCommand (c_name params_db1))
                 = Inl not_found_error"
    by (simp add: env_store_down_def env_ok_def)
  have nf: "ext_name not_found_error = ''ResourceNotFoundException''"
    by (simp add: not_found_error_def)
  have created: "vault env_store_down
                   (trace world_empty @ [Send (DescribeSecretCommand (c_name params_db1))])
                   (create_command params_db1) = Inr (Some ''arn:aws:secretsmanager:s1'')"
    by (simp add: env_store_down_def env_ok_def create_command_def)
  have rotated: "c_enableRotation params_db1 \<longrightarrow>
                   vault env_store_down
                     (trace world_empty @ [Send (DescribeSecretCommand (c_name params_db1)),
                                           Send (create_command params_db1)])
                     (rotate_command params_db1 config_p1) = Inr None"
    by (simp add: env_store_down_def env_ok_def rotate_command_def)
  have persist: "db_fault env_store_down
                   (trace world_empty @ calls_up_to_persist params_db1 config_p1)
                   (SecretCreate (c_name params_db1)) = Some store_down_error"
    by (simp add: env_store_down_def env_ok_def)
  have code: "ext_code store_down_error \<noteq> Some ''P2002''"
    by (simp add: store_down_error_def)
  have name: "c_name params_db1 = ''db-1''" "c_enableRotation params_db1"
    by (simp_all add: params_db1_def)
  have cmds: "create_command params_db1 = CreateSecretCommand ''db-1'' None ''{}''"
    "rotate_command params_db1 config_p1 =
       RotateSecretCommand ''db-1'' (Some ''arn:aws:lambda:rot'') (Some 30)"
    by (simp_all add: create_command_def rotate_command_def params_db1_def config_p1_def)
  have cfg: "getProjectAwsConfig world_empty (c_projectId params_db1) = Inr config_p1"
    by (simp add: params_db1_def config_world_empty_p1)
  have calls: "calls_up_to_persist params_db1 config_p1 =
      [Send (DescribeSecretCommand ''db-1''), Send (CreateSecretCommand ''db-1'' None ''{}''),
       Send (RotateSecretCommand ''db-1'' (Some ''arn:aws:lambda:rot'') (Some 30))]"
    by (simp add: calls_up_to_persist_def name cmds)
  from createSecret_rollback_on_persist_failure
         [OF cfg pre fresh probe nf created rotated persist]
  show ?thesis
    by (simp add: code name calls force_delete_def world_empty_def)
qed


section \<open>C2: rollback when enabling rotation fails\<close>

text \<open>
  C2. What the code does where the claim fails. A \<^verbatim>\<open>createSecret\<close> call with
  rotation requested passes its checks, the vault creates the secret, the
  registration of the rotation fails with \<open>xr\<close>, and the forced delete issued by
  the handler of that failure fails with \<open>xd\<close>. The call then surfaces \<open>xd\<close>,
  the error of the delete, and not the rotation error; the outer handler sends a
  second forced delete unless the code of \<open>xd\<close> is P2002.
\<close>

theorem createSecret_rotation_rollback_failure_masks:
  assumes cfg: "getProjectAwsConfig w (c_projectId params) = Inr projectConfig"
    and rot: "c_enableRotation params" "truthy (rotationLambdaArn projectConfig)"
    and fresh: "secret_by_name w (c_name params) = None"
    and probe: "vault e (trace w) (DescribeSecretCommand (c_name params)) = Inl xn"
               "ext_name xn = ''ResourceNotFoundException''"
    and created: "vault e (trace w @ [Send (DescribeSecretCommand (c_name params))])
                    (create_command params) = Inr awsSecretArn"
    and rotation_fails:
          "vault e (trace w @ [Send (DescribeSecretCommand (c_name params)),
                               Send (create_command params)])
             (rotate_command params projectConfig) = Inl xr"
    and rollback_fails:
          "vault e (trace w @ [Send (DescribeSecretCommand (c_name params)),
                               Send (create_command params),
                               Send (rotate_command params projectConfig)])
             (force_delete (c_name params)) = Inl xd"
  shows "fst (createSecret e params w) = Inl (Thrown xd)
       \<and> fst (createSecret e params w) \<noteq> Inl (rotation_failure xr)
       \<and> sent (new_events w (snd (createSecret e params w))) =
           [DescribeSecretCommand (c_name params), create_command params,
            rotate_command params projectConfig, force_delete (c_name params)]
             @ (if ext_code xd \<noteq> Some ''P2002'' then [force_delete (c_name params)] else [])"
proof -
  have pre: "c_enableRotation params \<longrightarrow> truthy (rotationLambdaArn projectConfig)"
    using rot by simp
  show ?thesis
    unfolding createSecret_reaches_try [OF cfg pre fresh probe]
    using rot created rotation_fails rollback_fails
    by (simp add: create_try_def send_def enable_rotation_step_def enableRotation_def
        create_catch_def create_command_def rotate_command_def force_delete_def
        rotation_failure_def)
qed

theorem createSecret_rotation_rollback_failure_masks_witness:
  "fst (createSecret env_rollback_denied params_db1 world_empty) = Inl (Thrown access_denied_error)
   \<and> fst (createSecret env_rollback_denied params_db1 world_empty)
       \<noteq> Inl (rotation_failure throttled_error)
   \<and> sent (new_events world_empty (snd (createSecret env_rollback_denied params_db1 world_empty))) =
       [DescribeSecretCommand ''db-1'', CreateSecretCommand ''db-1'' None ''{}'',
        RotateSecretCommand ''db-1'' (Some ''arn:aws:lambda:rot'') (Some 30),
        DeleteSecretCommand ''db-1'' True None, DeleteSecretCommand ''db-1'' True None]"
proof -
  have cfg: "getProjectAwsConfig world_empty (c_projectId params_db1) = Inr config_p1"
    by (simp add: params_db1_def config_world_empty_p1)
  have rot: "c_enableRotation params_db1" "truthy (rotationLambdaArn config_p1)"
    by (simp_all add: params_db1_def config_p1_def truthy_def)
  have fresh: "secret_by_name world_empty (c_name params_db1) = None"
    by (simp add: secret_by_name_def world_empty_def)
  have probe: "vault env_rollback_denied (trace world_empty)
                 (DescribeSecretCommand (c_name params_db1)) = Inl not_found_error"
    by (simp add: env_rollback_denied_def env_ok_def)
  have nf: "ext_name not_found_error = ''ResourceNotFoundException''"
    by (simp add: not_found_error_def)
  have created: "vault env_rollback_denied
                   (trace world_empty @ [Send (DescribeSecretCommand (c_name params_db1))])
                   (create_command params_db1) = Inr (Some ''arn:aws:secretsmanager:s1'')"
    by (simp add: env_rollback_denied_def env_ok_def create_command_def)
  have rotation_fails: "vault env_rollback_denied
                     (trace world_empty @ [Send (DescribeSecretCommand (c_name params_db1)),
                                           Send (create_command params_db1)])
                     (rotate_command params_db1 config_p1) = Inl throttled_error"
    by (simp add: env_rollback_denied_def env_ok_def rotate_command_def)
  have rollback_fails: "vault env_rollback_denied
                     (trace world_empty @ [Send (DescribeSecretCommand (c_name params_db1)),
                                           Send (create_command params_db1),
                                           Send (rotate_command params_db1 config_p1)])
                     (force_delete (c_name params_db1)) = Inl access_denied_error"
    by (simp add: env_rollback_denied_def env_ok_def force_delete_def)
  have code: "ext_code access_denied_error \<noteq> Some ''P2002''"
    by (simp add: access_denied_error_def)
  have cmds: "c_name params_db1 = ''db-1''"
    "create_command params_db1 = CreateSecretCommand ''db-1'' None ''{}''"
    "rotate_command params_db1 config_p1 =
       RotateSecretCommand ''db-1'' (Some ''arn:aws:lambda:rot'') (Some 30)"
    by (simp_all add: create_command_def rotate_command_def params_db1_def config_p1_def)
  from createSecret_rotation_rollback_failure_masks
         [OF cfg rot fresh probe nf created rotation_fails rollback_fails]
  show ?thesis
    by (simp add: code cmds force_delete_def rotation_failure_def)
qed

text \<open>
  The part of the claim that holds: when the delete in the handler succeeds, the
  call surfaces the rotation error, wrapped. The outer handler then sends the
  forced delete a second time.
\<close>

lemma createSecret_rotation_failure_rolled_back:
  assumes cfg: "getProjectAwsConfig w (c_projectId params) = Inr projectConfig"
    and rot: "c_enableRotation params" "truthy (rotationLambdaArn projectConfig)"
    and fresh: "secret_by_name w (c_name params) = None"
    and probe: "vault e (trace w) (DescribeSecretCommand (c_name params)) = Inl xn"
               "ext_name xn = ''ResourceNotFoundException''"
    and created: "vault e (trace w @ [Send (DescribeSecretCommand (c_name params))])
                    (create_command params) = Inr awsSecretArn"
    and rotation_fails:
          "vault e (trace w @ [Send (DescribeSecretCommand (c_name params)),
                               Send (create_command params)])
             (rotate_command params projectConfig) = Inl xr"
    and rollback_done:
          "vault e (trace w @ [Send (DescribeSecretCommand (c_name params)),
                               Send (create_command params),
                               Send (rotate_command params projectConfig)])
             (force_delete (c_name params)) = Inr reply"
  shows "fst (createSecret e params w) = Inl (rotation_failure xr)
       \<and> sent (new_events w (snd (createSecret e params w))) =
           [DescribeSecretCommand (c_name params), create_command params,
            rotate_command params projectConfig, force_delete (c_name params),
            force_delete (c_name params)]"
proof -
  have pre: "c_enableRotation params \<longrightarrow> truthy (rotationLambdaArn projectConfig)"
    using rot by simp
  show ?thesis
    unfolding createSecret_reaches_try [OF cfg pre fresh probe]
    using rot created rotation_fails rollback_done
    by (simp add: create_try_def send_def enable_rotation_step_def enableRotation_def
        create_catch_def create_command_def rotate_command_def force_delete_def
        rotation_failure_def)
qed

section \<open>C3: updateSecret writes to the vault first\<close>

text \<open>
  C3. For an \<^verbatim>\<open>updateSecret\<close> call on a stored secret that supplies a new
  value, the calls made are exactly these: none when the project configuration
  does not resolve; the vault write alone when the vault refuses it; the vault
  write followed by the write to the local store when the vault accepts it. So
  the vault write is made whenever the configuration resolves, and it precedes
  the only local write.
  \<^item> When the vault write fails with \<open>x\<close>, the call fails with the
    BadRequestException that wraps the message of \<open>x\<close>, and the secrets and
    projects of the local store are unchanged.
  \<^item> When the vault accepts the write and the local store accepts the update,
    the call returns the updated row, which is the row then stored under the id.
  \<^item> When the vault accepts the write and the local store refuses the update
    with \<open>y\<close>, the call fails with \<open>y\<close> and the secrets are unchanged.
\<close>

theorem updateSecret_vault_write_first:
  assumes "secret_by_id w secretId = Some secret"
  shows "new_events w (snd (updateSecret e secretId (Some v) description w)) =
           (if config_resolves w (s_projectId secret)
            then (case vault e (trace w) (update_command secret v description) of
                    Inl x \<Rightarrow> [Send (update_command secret v description)]
                  | Inr reply \<Rightarrow>
                      [Send (update_command secret v description), Db (SecretUpdate secretId)])
            else [])
       \<and> (config_resolves w (s_projectId secret)
            \<and> vault e (trace w) (update_command secret v description) = Inl x
          \<longrightarrow> fst (updateSecret e secretId (Some v) description w) = Inl (update_failure x)
              \<and> secrets (snd (updateSecret e secretId (Some v) description w)) = secrets w
              \<and> projects (snd (updateSecret e secretId (Some v) description w)) = projects w
              \<and> new_events w (snd (updateSecret e secretId (Some v) description w)) =
                   [Send (update_command secret v description)])
       \<and> (config_resolves w (s_projectId secret)
            \<and> vault e (trace w) (update_command secret v description) = Inr reply
            \<and> db_fault e (trace w @ [Send (update_command secret v description)])
                 (SecretUpdate secretId) = None
          \<longrightarrow> fst (updateSecret e secretId (Some v) description w) =
                Inr (updated_secret e description secret)
              \<and> secret_by_id (snd (updateSecret e secretId (Some v) description w)) secretId =
                  Some (updated_secret e description secret)
              \<and> new_events w (snd (updateSecret e secretId (Some v) description w)) =
                   [Send (update_command secret v description), Db (SecretUpdate secretId)])
       \<and> (config_resolves w (s_projectId secret)
            \<and> vault e (trace w) (update_command secret v description) = Inr reply
            \<and> db_fault e (trace w @ [Send (update_command secret v description)])
                 (SecretUpdate secretId) = Some y
          \<longrightarrow> fst (updateSecret e secretId (Some v) description w) = Inl (Thrown y)
              \<and> secrets (snd (updateSecret e secretId (Some v) description w)) = secrets w)"
proof -
  have sid: "s_id secret = secretId"
    using assms by (auto simp: secret_by_id_def dest: find_holds)
  have stored: "find (\<lambda>r. s_id r = secretId)
        (map (\<lambda>r. if s_id r = secretId then updated_secret e description r else r) (secrets w))
      = Some (updated_secret e description secret)"
    using assms sid
    by (simp add: find_map_same_sid updated_secret_def secret_by_id_def)
  have row: "(\<lambda>r. r\<lparr>s_description := (case description of None \<Rightarrow> s_description r
                                         | Some d \<Rightarrow> Some d),
                      s_updatedAt := now e\<rparr>) = updated_secret e description"
    by (simp add: updated_secret_def fun_eq_iff)
  show ?thesis
    using assms stored
    unfolding updateSecret_def row
    by (auto simp: send_def prisma_secret_update_def update_command_def
        update_failure_def config_resolves_def new_events_def Let_def secret_by_id_def
        log_event_def
        split: sum.splits option.splits)
qed

theorem updateSecret_vault_write_first_witness:
  "fst (updateSecret env_vault_denied ''s0'' (Some ''{}'') (Some ''second'') world_p1)
     = Inl (BadRequestException ''Failed to update AWS Secret: Access denied'')
   \<and> secrets (snd (updateSecret env_vault_denied ''s0'' (Some ''{}'') (Some ''second'') world_p1))
     = [secret_p1]
   \<and> new_events world_p1
       (snd (updateSecret env_vault_denied ''s0'' (Some ''{}'') (Some ''second'') world_p1))
     = [Send (UpdateSecretCommand ''db-1'' ''{}'' (Some ''second''))]
   \<and> fst (updateSecret env_ok ''s0'' (Some ''{}'') (Some ''second'') world_p1)
     = Inr (secret_p1\<lparr>s_description := Some ''second'', s_updatedAt := 7\<rparr>)
   \<and> secret_by_id (snd (updateSecret env_ok ''s0'' (Some ''{}'') (Some ''second'') world_p1)) ''s0''
     = Some (secret_p1\<lparr>s_description := Some ''second'', s_updatedAt := 7\<rparr>)
   \<and> new_events world_p1 (snd (updateSecret env_ok ''s0'' (Some ''{}'') (Some ''second'') world_p1))
     = [Send (UpdateSecretCommand ''db-1'' ''{}'' (Some ''second'')), Db (SecretUpdate ''s0'')]"
proof -
  have found: "secret_by_id world_p1 ''s0'' = Some secret_p1"
    by (simp add: secret_by_id_world_p1)
  have cfg: "config_resolves world_p1 (s_projectId secret_p1)"
    using config_resolves_world_p1 by (simp add: secret_p1_def)
  have fails: "vault env_vault_denied (trace world_p1)
                 (update_command secret_p1 ''{}'' (Some ''second'')) = Inl access_denied_error"
    by (simp add: env_vault_denied_def env_ok_def)
  have accepts: "vault env_ok (trace world_p1)
                 (update_command secret_p1 ''{}'' (Some ''second'')) = Inr None"
    by (simp add: env_ok_def update_command_def)
  have store: "db_fault env_ok
                 (trace world_p1 @ [Send (update_command secret_p1 ''{}'' (Some ''second''))])
                 (SecretUpdate ''s0'') = None"
    by (simp add: env_ok_def)
  have cmd: "update_command secret_p1 ''{}'' (Some ''second'') =
               UpdateSecretCommand ''db-1'' ''{}'' (Some ''second'')"
    by (simp add: update_command_def secret_p1_def secret_db1_def)
  have upd: "updated_secret env_ok (Some ''second'') secret_p1 =
               secret_p1\<lparr>s_description := Some ''second'', s_updatedAt := 7\<rparr>"
    by (simp add: updated_secret_def env_ok_def)
  have msg: "update_failure access_denied_error =
               BadRequestException ''Failed to update AWS Secret: Access denied''"
    by (simp add: update_failure_def access_denied_error_def)
  have rows: "secrets world_p1 = [secret_p1]"
    by (simp add: world_p1_def)
  from updateSecret_vault_write_first [OF found, of env_vault_denied "''{}''" "Some ''second''"
         access_denied_error None store_down_error]
       updateSecret_vault_write_first [OF found, of env_ok "''{}''" "Some ''second''"
         access_denied_error None store_down_error]
       cfg fails accepts store
  show ?thesis
    by (simp add: cmd upd msg rows)
qed

section \<open>C4: deleteSecret removes the local record whatever the vault answers\<close>

text \<open>
  C4. For a \<^verbatim>\<open>deleteSecret\<close> call on a stored secret, whatever the vault
  answers and whether or not the project configuration resolves: the delete of
  the local record is issued, exactly once; the vault receives the delete command
  when the configuration resolves and nothing when it does not; and, the local
  store performing the delete, the call returns the record and the record is gone.
  The vault's answer is universally quantified, so a "not found", any other
  failure and a success all give this result.
\<close>

theorem deleteSecret_local_delete_regardless:
  assumes "secret_by_id w secretId = Some secret"
  shows "db_writes (new_events w (snd (deleteSecret e secretId forceDelete w))) =
           [SecretDelete secretId]
       \<and> sent (new_events w (snd (deleteSecret e secretId forceDelete w))) =
           (if config_resolves w (s_projectId secret)
            then [delete_command secret forceDelete] else [])
       \<and> (store_accepts_delete e secretId \<longrightarrow>
            fst (deleteSecret e secretId forceDelete w) = Inr secret
            \<and> secret_by_id (snd (deleteSecret e secretId forceDelete w)) secretId = None)"
  using assms
  by (auto simp: deleteSecret_def send_def prisma_secret_delete_def delete_command_def
      config_resolves_def new_events_def Let_def secret_by_id_def secret_by_id_filter
      log_event_def store_accepts_delete_def
      split: sum.splits option.splits)

theorem deleteSecret_local_delete_regardless_witness:
  "fst (deleteSecret env_vault_gone ''s0'' False world_p1) = Inr secret_p1
   \<and> secret_by_id (snd (deleteSecret env_vault_gone ''s0'' False world_p1)) ''s0'' = None
   \<and> sent (new_events world_p1 (snd (deleteSecret env_vault_gone ''s0'' False world_p1))) =
       [DeleteSecretCommand ''db-1'' False (Some 30)]
   \<and> fst (deleteSecret env_vault_denied ''s0'' True world_p1) = Inr secret_p1
   \<and> secret_by_id (snd (deleteSecret env_vault_denied ''s0'' True world_p1)) ''s0'' = None
   \<and> sent (new_events world_p1 (snd (deleteSecret env_vault_denied ''s0'' True world_p1))) =
       [DeleteSecretCommand ''db-1'' True None]
   \<and> fst (deleteSecret env_ok ''s0'' False world_orphan) = Inr secret_orphan
   \<and> secret_by_id (snd (deleteSecret env_ok ''s0'' False world_orphan)) ''s0'' = None
   \<and> sent (new_events world_orphan (snd (deleteSecret env_ok ''s0'' False world_orphan))) = []"
proof -
  have acc: "store_accepts_delete env_vault_gone ''s0''"
    "store_accepts_delete env_vault_denied ''s0''" "store_accepts_delete env_ok ''s0''"
    by (simp_all add: store_accepts_delete_def env_vault_gone_def env_vault_denied_def env_ok_def)
  have p: "s_projectId secret_p1 = ''p1''" "s_projectId secret_orphan = ''p9''"
    "s_name secret_p1 = ''db-1''"
    by (simp_all add: secret_p1_def secret_orphan_def secret_db1_def)
  from deleteSecret_local_delete_regardless [OF secret_by_id_world_p1, of env_vault_gone False]
       deleteSecret_local_delete_regardless [OF secret_by_id_world_p1, of env_vault_denied True]
       deleteSecret_local_delete_regardless [OF secret_by_id_world_orphan, of env_ok False]
       acc config_resolves_world_p1 config_fails_world_orphan
  show ?thesis
    by (simp add: p delete_command_def)
qed

section \<open>C5: finishSecret moves the stage in one request\<close>

text \<open>
  C5. For each of the five strategies, \<^verbatim>\<open>finishSecret\<close> sends exactly one
  command to the vault, whatever the vault, the identity provider and the JSON
  parser answer: the UpdateSecretVersionStage command for the stage AWSCURRENT
  that moves to the version of the token and removes from the version id of the
  current secret.
\<close>

theorem finishSecret_single_stage_move:
  "sent (new_events w (snd (finishSecret st e secretId token currentSecret w))) =
     [UpdateSecretVersionStageCommand secretId ''AWSCURRENT'' token (VersionId currentSecret)]"
proof (cases st)
  case AwsApiKeyStrategy
  then show ?thesis
    by (auto simp: AwsApiKeyStrategy_finishSecret_def send_def iam_send_def new_events_def
        split: sum.splits prod.splits option.splits)
qed (simp_all add: RdsPostgresStrategy_finishSecret_def RdsMysqlStrategy_finishSecret_def
      DocumentDbStrategy_finishSecret_def GenericStrategy_finishSecret_def send_def
      new_events_def split: sum.splits)

theorem finishSecret_single_stage_move_witness:
  "sent (new_events world_empty
      (snd (finishSecret AwsApiKeyStrategy env_ok ''db-1'' ''v2'' current_v1 world_empty))) =
     [UpdateSecretVersionStageCommand ''db-1'' ''AWSCURRENT'' ''v2'' (Some ''v1'')]
   \<and> new_events world_empty
      (snd (finishSecret AwsApiKeyStrategy env_ok ''db-1'' ''v2'' current_v1 world_empty)) =
     [Send (UpdateSecretVersionStageCommand ''db-1'' ''AWSCURRENT'' ''v2'' (Some ''v1'')),
      Iam (UpdateAccessKeyCommand ''svc'' ''AKIAOLD'' ''Inactive''),
      Iam (DeleteAccessKeyCommand ''svc'' ''AKIAOLD'')]"
  using finishSecret_single_stage_move [of world_empty AwsApiKeyStrategy env_ok "''db-1''"
      "''v2''" current_v1]
  by (simp add: current_v1_def)
     (simp add: AwsApiKeyStrategy_finishSecret_def send_def iam_send_def new_events_def
        env_ok_def world_empty_def truthy_def or_empty_def log_event_def)

section \<open>C6: the deployment guard and the final status\<close>




section \<open>C7: rotation requested without a rotation function\<close>

text \<open>
  C7. A \<^verbatim>\<open>createSecret\<close> call with rotation requested, for a project that
  exists and has no rotation function configured, fails with a
  BadRequestException, makes no call at all (the world, and with it the record of
  calls, is unchanged) and so sends nothing to the vault. When the credentials of
  the project are configured the error is the one of the missing Lambda ARN.
\<close>

theorem createSecret_missing_rotation_function:
  assumes "project_by_id w (c_projectId params) = Some p"
    and "\<not> truthy (awsSecretsManagerRotationLambdaArn p)"
    and "c_enableRotation params"
  shows "is_bad_request (fst (createSecret e params w))
       \<and> snd (createSecret e params w) = w
       \<and> sent (new_events w (snd (createSecret e params w))) = []
       \<and> (credentials_configured p \<longrightarrow>
            fst (createSecret e params w) = Inl lambda_arn_missing_error)"
  using assms
  by (simp add: createSecret_def getProjectAwsConfig_def rotation_prerequisites_eq
      is_bad_request_def new_events_def lambda_arn_missing_error_def credentials_configured_def)

theorem createSecret_missing_rotation_function_witness:
  "fst (createSecret env_ok params_generic_p2 world_empty) = Inl lambda_arn_missing_error
   \<and> snd (createSecret env_ok params_generic_p2 world_empty) = world_empty
   \<and> sent (new_events world_empty (snd (createSecret env_ok params_generic_p2 world_empty))) = []"
proof -
  have p: "project_by_id world_empty (c_projectId params_generic_p2) = Some project_p2"
    by (simp add: params_generic_p2_def project_by_id_p2)
  have arn: "\<not> truthy (awsSecretsManagerRotationLambdaArn project_p2)"
    by (simp add: project_p2_def truthy_def)
  have rot: "c_enableRotation params_generic_p2"
    by (simp add: params_generic_p2_def)
  have cred: "credentials_configured project_p2"
    by (simp add: credentials_configured_def project_p2_def project_p1_def truthy_def)
  from createSecret_missing_rotation_function [OF p arn rot, of env_ok] cred
  show ?thesis by simp
qed

section \<open>C8: a second secret of the same name\<close>

text \<open>
  C8, as amended. When a secret of the requested name is already in the local
  store, \<^verbatim>\<open>createSecret\<close> fails, changes nothing and sends nothing to the vault.
  The failure is the ConflictException of the name whenever the project
  configuration resolves and, rotation being requested, the project has a
  rotation function: those checks run before the uniqueness check.
\<close>

theorem createSecret_duplicate_name:
  assumes "secret_by_name w (c_name params) = Some existing"
  shows "is_failure (fst (createSecret e params w))
       \<and> snd (createSecret e params w) = w
       \<and> sent (new_events w (snd (createSecret e params w))) = []
       \<and> (getProjectAwsConfig w (c_projectId params) = Inr projectConfig
            \<and> (c_enableRotation params \<longrightarrow> truthy (rotationLambdaArn projectConfig))
          \<longrightarrow> fst (createSecret e params w) = Inl (name_conflict_error (c_name params)))"
  using assms
  by (auto simp: createSecret_def rotation_prerequisites_eq is_failure_def new_events_def
      name_conflict_error_def Let_def split: sum.splits)

theorem createSecret_duplicate_name_witness:
  "secret_by_name world_db1 (c_name params_plain_p2) = Some secret_db1
   \<and> s_projectId secret_db1 = c_projectId params_plain_p2
   \<and> fst (createSecret env_ok params_plain_p2 world_db1) = Inl (name_conflict_error ''db-1'')
   \<and> snd (createSecret env_ok params_plain_p2 world_db1) = world_db1
   \<and> sent (new_events world_db1 (snd (createSecret env_ok params_plain_p2 world_db1))) = []"
proof -
  have found: "secret_by_name world_db1 (c_name params_plain_p2) = Some secret_db1"
    by (simp add: secret_by_name_def world_db1_def secret_db1_def params_plain_p2_def
        params_generic_p2_def)
  have cfg: "getProjectAwsConfig world_db1 (c_projectId params_plain_p2) = Inr config_p2"
    by (simp add: getProjectAwsConfig_def project_by_id_def world_db1_def world_empty_def
        params_plain_p2_def params_generic_p2_def project_p1_def project_p2_def truthy_def
        or_empty_def config_p2_def config_p1_def)
  have rot: "\<not> c_enableRotation params_plain_p2"
    by (simp add: params_plain_p2_def)
  have same: "s_projectId secret_db1 = c_projectId params_plain_p2"
    "c_name params_plain_p2 = ''db-1''"
    by (simp_all add: secret_db1_def params_plain_p2_def params_generic_p2_def)
  from createSecret_duplicate_name [OF found, of env_ok config_p2] cfg rot found same
  show ?thesis by simp
qed

text \<open>
  The claim as stated fails: with rotation requested in a project that has no
  rotation function, the second call for the name of a stored secret of the same
  project fails with the BadRequestException of the missing Lambda ARN, not with
  the ConflictException.
\<close>

theorem createSecret_duplicate_name_counterexample:
  "secret_by_name world_db1 (c_name params_generic_p2) = Some secret_db1
   \<and> s_projectId secret_db1 = c_projectId params_generic_p2
   \<and> fst (createSecret env_ok params_generic_p2 world_db1) = Inl lambda_arn_missing_error
   \<and> fst (createSecret env_ok params_generic_p2 world_db1)
       \<noteq> Inl (name_conflict_error (c_name params_generic_p2))"
  by (simp add: createSecret_def getProjectAwsConfig_def rotation_prerequisites_eq
      lambda_arn_missing_error_def name_conflict_error_def secret_by_name_def world_db1_def
      world_empty_def project_by_id_def project_p1_def project_p2_def secret_db1_def
      params_generic_p2_def truthy_def)

section \<open>C9: one unlock and one retry\<close>

text \<open>
  C9, as amended. In a deploy or remove run that reaches the provisioning tool,
  let the first run of the provisioning command fail with \<open>x1\<close>. Without both
  sentinels in the stdout of \<open>x1\<close>, the run fails with the error that wraps
  \<open>x1\<close> and the command was run once, with no unlock. With both sentinels, the
  unlock command is run once; if the unlock fails the run fails with the error
  that wraps the failure of the unlock and the provisioning command is not run
  again; if the unlock succeeds the provisioning command is run once more, and a
  failure of that retry is the one the run wraps and fails with.
\<close>

theorem lock_recovery_once:
  assumes proj: "project_by_id w projectId = Some project"
    and cred: "k = Deploy \<longrightarrow> credentials_configured project"
    and first: "exec e (trace w) (provisioning_command k projectId) = Inl x1"
  shows "(\<not> lock_detected x1 \<longrightarrow>
            fst (run_internal k e projectId w) = Some (run_failure k x1)
          \<and> execs (new_events w (snd (run_internal k e projectId w))) =
              [provisioning_command k projectId])
       \<and> (lock_detected x1 \<longrightarrow>
            (case exec e (trace w @ [Exec (provisioning_command k projectId)])
                    (unlockCommand projectId) of
               Inl xu \<Rightarrow>
                 fst (run_internal k e projectId w) = Some (run_failure k xu)
                 \<and> execs (new_events w (snd (run_internal k e projectId w))) =
                     [provisioning_command k projectId, unlockCommand projectId]
             | Inr unlocked \<Rightarrow>
                 execs (new_events w (snd (run_internal k e projectId w))) =
                   [provisioning_command k projectId, unlockCommand projectId,
                    provisioning_command k projectId]
                 \<and> (case exec e (trace w @ [Exec (provisioning_command k projectId),
                                              Exec (unlockCommand projectId)])
                            (provisioning_command k projectId) of
                      Inl x2 \<Rightarrow> fst (run_internal k e projectId w) = Some (run_failure k x2)
                    | Inr out \<Rightarrow> True)))"
proof (cases k)
  case Deploy
  with cred have c: "credentials_configured project" by simp
  from first Deploy have f: "exec e (trace w) (deployCommand projectId) = Inl x1" by simp
  show ?thesis
    unfolding Deploy run_internal_deploy [OF proj c] fst_snd_case_try
    using deploy_try_first_failure [OF f]
    by (auto split: sum.splits)
next
  case Remove
  from first Remove have f: "exec e (trace w) (removeCommand projectId) = Inl x1" by simp
  show ?thesis
    unfolding Remove run_internal_remove [OF proj] fst_snd_case_try
    using remove_try_first_failure [OF f]
    by (auto split: sum.splits)
qed

theorem lock_recovery_once_witness:
  "exec env_locked_twice (trace world_empty) (provisioning_command Deploy ''p1'') = Inl locked_error
   \<and> lock_detected locked_error
   \<and> execs (new_events world_empty (snd (run_internal Deploy env_locked_twice ''p1'' world_empty)))
       = [deployCommand ''p1'', unlockCommand ''p1'', deployCommand ''p1'']
   \<and> fst (run_internal Deploy env_locked_twice ''p1'' world_empty)
       = Some (deploy_failure (Thrown locked_error))
   \<and> exec env_plain_failure (trace world_empty) (provisioning_command Remove ''p1'')
       = Inl plain_exec_error
   \<and> \<not> lock_detected plain_exec_error
   \<and> execs (new_events world_empty (snd (run_internal Remove env_plain_failure ''p1'' world_empty)))
       = [removeCommand ''p1'']
   \<and> fst (run_internal Remove env_plain_failure ''p1'' world_empty)
       = Some (remove_failure (Thrown plain_exec_error))"
proof -
  have ne: "deployCommand ''p1'' \<noteq> unlockCommand ''p1''"
    by (simp add: deployCommand_def unlockCommand_def)
  have cred: "Deploy = Deploy \<longrightarrow> credentials_configured project_p1"
    "Remove = Deploy \<longrightarrow> credentials_configured project_p1"
    by (simp_all add: credentials_configured_def project_p1_def truthy_def)
  have first: "exec env_locked_twice (trace world_empty) (provisioning_command Deploy ''p1'')
                 = Inl locked_error"
    using ne by (simp add: env_locked_twice_def env_ok_def)
  have unlocked: "exec env_locked_twice (trace world_empty @ [Exec (deployCommand ''p1'')])
                    (unlockCommand ''p1'') = Inr ([], [])"
    by (simp add: env_locked_twice_def env_ok_def)
  have again: "exec env_locked_twice
                 (trace world_empty @ [Exec (deployCommand ''p1''), Exec (unlockCommand ''p1'')])
                 (deployCommand ''p1'') = Inl locked_error"
    using ne by (simp add: env_locked_twice_def env_ok_def)
  have plain: "exec env_plain_failure (trace world_empty) (provisioning_command Remove ''p1'')
                 = Inl plain_exec_error"
    by (simp add: env_plain_failure_def env_ok_def)
  have no_lock: "\<not> lock_detected plain_exec_error"
    by (simp add: lock_detected_def plain_exec_error_def or_empty_def)
  from lock_recovery_once [OF project_by_id_p1 cred(1) first]
       lock_recovery_once [OF project_by_id_p1 cred(2) plain]
       first plain unlocked again lock_detected_locked_error no_lock
  show ?thesis by simp
qed

text \<open>
  The claim as stated fails: when the unlock itself fails there is no retry. Here
  the tool reports the lock, the unlock fails, and the provisioning command has
  run once only.
\<close>

theorem lock_recovery_counterexample:
  "exec env_locked (trace world_empty) (deployCommand ''p1'') = Inl locked_error
   \<and> lock_detected locked_error
   \<and> execs (new_events world_empty (snd (deployRotationLambdaInternal env_locked ''p1'' world_empty)))
       = [deployCommand ''p1'', unlockCommand ''p1'']
   \<and> count_list
       (execs (new_events world_empty
          (snd (deployRotationLambdaInternal env_locked ''p1'' world_empty))))
       (deployCommand ''p1'') = 1
   \<and> fst (deployRotationLambdaInternal env_locked ''p1'' world_empty)
       = Inl (deploy_failure (Thrown unlock_error))"
proof -
  have first: "exec env_locked (trace world_empty) (deployCommand ''p1'') = Inl locked_error"
    by (simp add: env_locked_def env_ok_def deployCommand_def unlockCommand_def)
  have second: "exec env_locked (trace world_empty @ [Exec (deployCommand ''p1'')])
                  (unlockCommand ''p1'') = Inl unlock_error"
    by (simp add: env_locked_def env_ok_def)
  have cred: "credentials_configured project_p1"
    by (simp add: credentials_configured_def project_p1_def truthy_def)
  have ne: "deployCommand ''p1'' \<noteq> unlockCommand ''p1''"
    by (simp add: deployCommand_def unlockCommand_def)
  obtain r w1 where r: "deploy_try env_locked ''p1'' world_empty = (r, w1)" by fastforce
  from deploy_try_first_failure [OF first] second lock_detected_locked_error r
  have "r = Inl (Thrown unlock_error)"
    "execs (new_events world_empty w1) = [deployCommand ''p1'', unlockCommand ''p1'']"
    by simp_all
  then show ?thesis
    using first lock_detected_locked_error cred ne r
    by (simp add: deployRotationLambdaInternal_def project_by_id_p1 credentials_configured_def)
qed

section \<open>C10: every secret type supports rotation\<close>

text \<open>
  C10. \<^verbatim>\<open>isRotationSupported\<close> holds of every secret type. The rotation
  prerequisites never give the "does not support automatic rotation" error: they
  give the error of the missing Lambda ARN when rotation is requested and the ARN
  is falsy, and pass otherwise. No \<^verbatim>\<open>createSecret\<close> call fails with the
  "does not support automatic rotation" error.
\<close>

theorem rotation_support_branch_unreachable:
  "isRotationSupported ty
   \<and> rotation_prerequisites enableRot ty lambdaArn \<noteq> Some (unsupported_type_error ty)
   \<and> rotation_prerequisites enableRot ty lambdaArn =
       (if enableRot \<and> \<not> truthy lambdaArn
        then Some (BadRequestException
               ''Lambda ARN is not configured in Project Settings, cannot enable rotation'')
        else None)
   \<and> fst (createSecret e params w) \<noteq> Inl (unsupported_type_error (c_type params))"
proof -
  have "fst (createSecret e params w) \<noteq> Inl (unsupported_type_error (c_type params))"
  proof
    assume "fst (createSecret e params w) = Inl (unsupported_type_error (c_type params))"
    from createSecret_error [OF this] show False
      by (auto simp: unsupported_type_error_def)
  qed
  then show ?thesis
    by (simp add: isRotationSupported_every_type rotation_prerequisites_eq
        unsupported_type_error_def del: isRotationSupported.simps)
qed

theorem rotation_support_branch_unreachable_witness:
  "isRotationSupported GENERIC_SECRET
   \<and> rotation_prerequisites True GENERIC_SECRET None = Some lambda_arn_missing_error
   \<and> rotation_prerequisites True GENERIC_SECRET (Some ''arn:aws:lambda:rot'') = None
   \<and> fst (createSecret env_ok params_generic_p2 world_empty)
       \<noteq> Inl (unsupported_type_error GENERIC_SECRET)"
  using rotation_support_branch_unreachable [of GENERIC_SECRET True None env_ok
          params_generic_p2 world_empty]
        rotation_support_branch_unreachable [of GENERIC_SECRET True "Some ''arn:aws:lambda:rot''"
          env_ok params_generic_p2 world_empty]
  by (simp add: truthy_def lambda_arn_missing_error_def params_generic_p2_def
      del: isRotationSupported.simps)

end
